theory Spec2Isabelle
  imports Main
begin

section \<open>Python values and exceptions\<close>

text \<open>
  The repository is Python. A value of type \<open>Any\<close> is one of the shapes below; \<open>PObj a\<close>
  is an object known only by its identity \<open>a\<close> (for instance the \<open>Fruit\<close> instance that
  \<open>test_agents.py\<close> passes as \<open>deps\<close>): handing such a value on hands on the same
  identity. A \<open>dict[str, Any]\<close> that is only built and looked up is a map.
\<close>

datatype pyval =
    PNone
  | PBool bool
  | PInt int
  | PStr string
  | PList "pyval list"
  | PDict "(string \<times> pyval) list"
  | PObj nat

type_synonym pydict = "string \<rightharpoonup> pyval"

text \<open>
  A raised exception is known by the name of its class and by its string form
  (\<open>str(e)\<close>). \<open>PyExc\<close> is an instance of \<open>Exception\<close>, which is what an
  \<open>except Exception\<close> clause catches. \<open>PyBaseExc\<close> is an instance of \<open>BaseException\<close>
  that is not an \<open>Exception\<close> (\<open>asyncio.CancelledError\<close>, \<open>KeyboardInterrupt\<close>,
  \<open>SystemExit\<close>): such a clause lets it pass.
\<close>

datatype pyexc =
    PyExc (exc_class: string) (exc_str: string)
  | PyBaseExc (exc_class: string) (exc_str: string)

text \<open>\<open>isinstance(e, Exception)\<close>.\<close>

fun is_Exception :: "pyexc \<Rightarrow> bool" where
  "is_Exception (PyExc _ _) = True"
| "is_Exception (PyBaseExc _ _) = False"

definition quoted :: "string \<Rightarrow> string" where
  "quoted s = [CHR 0x27] @ s @ [CHR 0x27]"

definition no_attribute :: "string \<Rightarrow> string \<Rightarrow> string" where
  "no_attribute type_name attr = quoted type_name @ '' object has no attribute '' @ quoted attr"

section \<open>The dispatcher: \<open>my_agent/containers.py\<close>\<close>

text \<open>
  \<open>RunContext\<close> is the agent framework's per-run context; the dispatcher reads only its
  \<open>deps\<close> field.
\<close>

record run_context =
  deps :: pyval

text \<open>
  \<open>CallToolFunc\<close>: the tool-calling mechanism the framework hands to the dispatcher, a
  callable of the tool's name, its arguments and optional metadata. It performs I/O, so
  it runs on a state \<open>'s\<close> of the world it talks to, and it returns a tool result or
  raises.
\<close>

type_synonym 's call_tool_func =
  "string \<Rightarrow> pydict \<Rightarrow> pydict option \<Rightarrow> 's \<Rightarrow> (pyexc + pyval) \<times> 's"

text \<open>
  \<^verbatim>\<open>
  async def process_tool_call(ctx, call_tool, name, tool_args):
      return await call_tool(name, tool_args, {'deps': ctx.deps})
  \<close>
\<close>

definition process_tool_call ::
  "run_context \<Rightarrow> 's call_tool_func \<Rightarrow> string \<Rightarrow> pydict \<Rightarrow> 's \<Rightarrow> (pyexc + pyval) \<times> 's" where
  "process_tool_call ctx call_tool name tool_args =
     call_tool name tool_args (Some [''deps'' \<mapsto> deps ctx])"

text \<open>
  What the spec says of \<open>dispatch\<close> (Sections 4.1 and 8), word for word: build the envelope
  \<open>{"deps": session_context}\<close>, invoke the mechanism with the tool name, the arguments and
  the envelope, return what it returns. The dispatcher above is compared with it.
\<close>

definition dispatch_spec ::
  "'s call_tool_func \<Rightarrow> string \<Rightarrow> pydict \<Rightarrow> pyval \<Rightarrow> 's \<Rightarrow> (pyexc + pyval) \<times> 's" where
  "dispatch_spec mechanism tool_name arguments session_context s =
     (let envelope = [''deps'' \<mapsto> session_context];
          result = mechanism tool_name arguments (Some envelope) s
      in result)"

subsection \<open>Observing what the mechanism is handed\<close>

text \<open>
  To say what the dispatcher forwards, and how often, a mechanism is wrapped so that it
  records every invocation it receives, in order, before running it.
\<close>

record invocation =
  inv_name :: string
  inv_args :: pydict
  inv_meta :: "pydict option"

definition traced :: "'s call_tool_func \<Rightarrow> (invocation list \<times> 's) call_tool_func" where
  "traced call_tool name tool_args metadata =
     (\<lambda>(log, s).
        case call_tool name tool_args metadata s of
          (r, s') \<Rightarrow>
            (r, (log @ [\<lparr>inv_name = name, inv_args = tool_args, inv_meta = metadata\<rparr>], s')))"

text \<open>The invocation a request is to reach the mechanism as.\<close>

definition invocation_of :: "run_context \<times> string \<times> pydict \<Rightarrow> invocation" where
  "invocation_of req =
     (case req of
        (ctx, name, tool_args) \<Rightarrow>
          \<lparr>inv_name = name, inv_args = tool_args, inv_meta = Some [''deps'' \<mapsto> deps ctx]\<rparr>)"

section \<open>The context-reading tool: \<open>my_mcp/mcp_with_deps.py\<close>\<close>

text \<open>
  The tool receives the server's \<open>Context\<close>. It reads \<open>ctx.request_context.meta\<close>, which
  is \<open>None\<close> when the request carried no metadata and otherwise an object whose
  attributes are the metadata's keys. \<open>ctx.info\<close> sends a log notification of level
  \<open>info\<close> over the session.
\<close>

record request_context =
  meta :: "pydict option"

record mcp_context =
  request_context :: request_context

record server_session =
  notifications :: "(string \<times> string) list"

definition ctx_info :: "string \<Rightarrow> server_session \<Rightarrow> server_session" where
  "ctx_info message s = s\<lparr>notifications := notifications s @ [(''info'', message)]\<rparr>"

text \<open>
  \<open>getattr(meta, name)\<close> with no default: it raises \<open>AttributeError\<close> when \<open>meta\<close> is
  \<open>None\<close> and when the metadata has no such key.
\<close>

definition getattr_meta :: "pydict option \<Rightarrow> string \<Rightarrow> pyexc + pyval" where
  "getattr_meta m name =
     (case m of
        None \<Rightarrow> Inl (PyExc ''AttributeError'' (no_attribute ''NoneType'' name))
      | Some d \<Rightarrow>
          (case d name of
             None \<Rightarrow> Inl (PyExc ''AttributeError'' (no_attribute ''Meta'' name))
           | Some v \<Rightarrow> Inr v))"

text \<open>
  \<^verbatim>\<open>
  @mcp.tool()
  async def echo_deps(ctx):
      await ctx.info('This is an info message')
      deps = getattr(ctx.request_context.meta, 'deps')
      return {'echo': 'This is an echo message', 'deps': deps}
  \<close>
\<close>

definition echo_deps :: "mcp_context \<Rightarrow> server_session \<Rightarrow> (pyexc + pyval) \<times> server_session" where
  "echo_deps ctx s =
     (let s1 = ctx_info ''This is an info message'' s in
      case getattr_meta (meta (request_context ctx)) ''deps'' of
        Inl e \<Rightarrow> (Inl e, s1)
      | Inr d \<Rightarrow> (Inr (PDict [(''echo'', PStr ''This is an echo message''), (''deps'', d)]), s1))"

section \<open>The tool registry\<close>

type_synonym 's tool = "pydict \<Rightarrow> pydict option \<Rightarrow> 's \<Rightarrow> (pyexc + pyval) \<times> 's"

text \<open>
  Modelled from the spec: the tool-calling mechanism itself is the agent framework's and
  the tool server's, neither of them in the repository. Sections 6 and 9 describe it: the
  registry is a mapping from tool name to callable tool implementation, resolved at call
  time with a checked lookup; a name that does not resolve fails with \<open>ToolNotFound\<close>,
  and a registered tool is called with the arguments and the metadata.
\<close>

definition call_registered_tool :: "(string \<rightharpoonup> 's tool) \<Rightarrow> 's call_tool_func" where
  "call_registered_tool registry tool_name arguments metadata s =
     (case registry tool_name of
        None \<Rightarrow> (Inl (PyExc ''ToolNotFound'' tool_name), s)
      | Some tool \<Rightarrow> tool arguments metadata s)"

text \<open>
  \<open>mcp_with_deps.py\<close> registers one tool, under its function name (\<open>@mcp.tool()\<close>). The
  server builds the tool's \<open>Context\<close> from the request: its metadata is the request's.
\<close>

definition mcp_with_deps_tools :: "string \<rightharpoonup> server_session tool" where
  "mcp_with_deps_tools =
     [''echo_deps'' \<mapsto>
        (\<lambda>arguments metadata. echo_deps \<lparr>request_context = \<lparr>meta = metadata\<rparr>\<rparr>)]"

section \<open>Dispatches in flight together\<close>

text \<open>
  \<open>process_tool_call\<close> and the tools are coroutines: while one is suspended at an
  \<open>await\<close>, the event loop runs others. A coroutine, as the event loop holds it, has
  finished with a result or a raise, or it is suspended and, when resumed, runs on the
  world up to its next suspension. A coroutine that has not started yet is suspended
  before its first statement.
\<close>

datatype 's coro = Finished "pyexc + pyval" | Suspended "'s \<Rightarrow> 's coro \<times> 's"

fun resume :: "'s coro \<Rightarrow> 's \<Rightarrow> 's coro \<times> 's" where
  "resume (Finished r) s = (Finished r, s)"
| "resume (Suspended k) s = k s"

text \<open>
  The event loop holds the tasks in flight and resumes one at a time. Which one is next
  depends on the I/O each waits for: it is given from outside, as the list of the indices
  resumed, and every such list is a possible run. An index that is no task's is skipped.
\<close>

fun run_schedule :: "nat list \<Rightarrow> 's coro list \<Rightarrow> 's \<Rightarrow> 's coro list \<times> 's" where
  "run_schedule [] tasks s = (tasks, s)"
| "run_schedule (i # rest) tasks s =
     (if i < length tasks
      then (case resume (tasks ! i) s of
              (c, s') \<Rightarrow> run_schedule rest (tasks[i := c]) s')
      else run_schedule rest tasks s)"

text \<open>
  \<open>CallToolFunc\<close> again, now as what it is called for: the awaitable it returns.
\<close>

type_synonym 's async_call_tool = "string \<Rightarrow> pydict \<Rightarrow> pydict option \<Rightarrow> 's coro"

text \<open>
  The dispatcher as a coroutine, the same line of \<open>containers.py\<close>:
  \<^verbatim>\<open>
      return await call_tool(name, tool_args, {'deps': ctx.deps})
  \<close>
  Nothing runs until it is first resumed. Then it builds the envelope, calls
  \<open>call_tool\<close> and awaits what that returns: it is suspended whenever the awaited
  coroutine is, resumes it when resumed, and finishes with its result or its raise.
\<close>

definition process_tool_call_coro ::
  "run_context \<Rightarrow> 's async_call_tool \<Rightarrow> string \<Rightarrow> pydict \<Rightarrow> 's coro" where
  "process_tool_call_coro ctx call_tool name tool_args =
     Suspended (\<lambda>s. resume (call_tool name tool_args (Some [''deps'' \<mapsto> deps ctx])) s)"

text \<open>Dispatches in flight: one task for each request.\<close>

definition dispatch_tasks ::
  "'s async_call_tool \<Rightarrow> (run_context \<times> string \<times> pydict) list \<Rightarrow> 's coro list" where
  "dispatch_tasks call_tool reqs =
     map (\<lambda>req. case req of
            (ctx, name, tool_args) \<Rightarrow> process_tool_call_coro ctx call_tool name tool_args)
         reqs"

text \<open>
  A mechanism of the sequential reading, as a coroutine that is never suspended once
  started: with it, the two readings of the dispatcher are compared.
\<close>

definition atomic_call_tool :: "'s call_tool_func \<Rightarrow> 's async_call_tool" where
  "atomic_call_tool call_tool name tool_args metadata =
     Suspended (\<lambda>s. case call_tool name tool_args metadata s of (r, s') \<Rightarrow> (Finished r, s'))"

text \<open>
  The recording wrapper for coroutines: the coroutine it returns records the invocation
  when it starts, and from then on runs as the wrapped mechanism's coroutine does, on
  the world beside the record.
\<close>

primrec lift_coro :: "'s coro \<Rightarrow> (invocation list \<times> 's) coro" where
  "lift_coro (Finished r) = Finished r"
| "lift_coro (Suspended k) =
     Suspended (\<lambda>ls. map_prod lift_coro (Pair (fst ls)) (k (snd ls)))"

definition traced_async :: "'s async_call_tool \<Rightarrow> (invocation list \<times> 's) async_call_tool" where
  "traced_async call_tool name tool_args metadata =
     Suspended (\<lambda>ls.
       map_prod lift_coro
         (Pair (fst ls @ [\<lparr>inv_name = name, inv_args = tool_args, inv_meta = metadata\<rparr>]))
         (resume (call_tool name tool_args metadata) (snd ls)))"

text \<open>
  The tasks that start in a run, each once, in the order of their first resumption:
  \<open>seen\<close> holds those that had started before.
\<close>

fun starts :: "nat set \<Rightarrow> nat list \<Rightarrow> nat list" where
  "starts seen [] = []"
| "starts seen (i # rest) =
     (if i \<in> seen then starts seen rest else i # starts (insert i seen) rest)"

text \<open>
  \<open>echo_deps\<close> as a coroutine: it runs up to \<open>await ctx.info(...)\<close>, where the
  notification is sent and the tool is suspended; resumed, it reads \<open>deps\<close> and returns.
\<close>

definition echo_deps_coro :: "mcp_context \<Rightarrow> server_session coro" where
  "echo_deps_coro ctx =
     Suspended (\<lambda>s.
       (Suspended (\<lambda>s'.
          (Finished
             (case getattr_meta (meta (request_context ctx)) ''deps'' of
                Inl e \<Rightarrow> Inl e
              | Inr d \<Rightarrow> Inr (PDict [(''echo'', PStr ''This is an echo message''), (''deps'', d)])),
           s')),
        ctx_info ''This is an info message'' s))"

text \<open>
  Modelled from the spec: the registry of Sections 6 and 9 as above, for coroutines. An
  unregistered name gives a coroutine that raises \<open>ToolNotFound\<close>; a registered tool is
  called with the arguments and the metadata, and its coroutine is what is awaited.
\<close>

definition call_registered_tool_async ::
  "(string \<rightharpoonup> (pydict \<Rightarrow> pydict option \<Rightarrow> 's coro)) \<Rightarrow> 's async_call_tool" where
  "call_registered_tool_async registry tool_name arguments metadata =
     (case registry tool_name of
        None \<Rightarrow> Suspended (\<lambda>s. (Finished (Inl (PyExc ''ToolNotFound'' tool_name)), s))
      | Some tool \<Rightarrow> tool arguments metadata)"

definition mcp_with_deps_tools_async ::
  "string \<rightharpoonup> (pydict \<Rightarrow> pydict option \<Rightarrow> server_session coro)" where
  "mcp_with_deps_tools_async =
     [''echo_deps'' \<mapsto>
        (\<lambda>arguments metadata. echo_deps_coro \<lparr>request_context = \<lparr>meta = metadata\<rparr>\<rparr>)]"

text \<open>
  Requests for \<open>echo_deps\<close> with empty arguments, one for each context; the result
  \<open>echo_deps\<close> owes a context; and the states a dispatch of \<open>echo_deps\<close> is in after it
  was resumed no time, once, and twice or more.
\<close>

definition echo_requests :: "run_context list \<Rightarrow> (run_context \<times> string \<times> pydict) list" where
  "echo_requests ctxs = map (\<lambda>ctx. (ctx, ''echo_deps'', Map.empty)) ctxs"

definition echo_result :: "run_context \<Rightarrow> pyexc + pyval" where
  "echo_result ctx =
     Inr (PDict [(''echo'', PStr ''This is an echo message''), (''deps'', deps ctx)])"

definition echo_dispatch :: "run_context \<Rightarrow> server_session coro" where
  "echo_dispatch ctx =
     process_tool_call_coro ctx (call_registered_tool_async mcp_with_deps_tools_async)
       ''echo_deps'' Map.empty"

fun echo_task :: "run_context \<Rightarrow> nat \<Rightarrow> server_session coro" where
  "echo_task ctx 0 = echo_dispatch ctx"
| "echo_task ctx (Suc 0) = Suspended (\<lambda>s. (Finished (echo_result ctx), s))"
| "echo_task ctx (Suc (Suc k)) = Finished (echo_result ctx)"

section \<open>The chat endpoint: \<open>my_api/my_agent_api.py\<close>\<close>

text \<open>
  \<open>QueryRequest\<close> is the request body, \<open>response.output\<close> the agent's answer. The agent
  (\<open>myagent.agent.run_sync\<close>) is the framework's: it is a parameter, a function of the
  query that runs on the world \<open>'w\<close> it talks to and returns a run result or raises.
\<close>

record query_request =
  query :: string

record agent_run_result =
  run_output :: string

text \<open>
  What the endpoint raises: the \<open>HTTPException\<close> it builds, or an exception of the agent
  run that its handler does not catch.
\<close>

datatype chat_raised =
    HTTPException (status_code: nat) (detail: string)
  | Propagated pyexc

text \<open>
  \<^verbatim>\<open>
  @app.post("/chat")
  def chat(request: QueryRequest):
      try:
          response = myagent.agent.run_sync(request.query)
          return {"response": response.output}
      except Exception as e:
          raise HTTPException(status_code=500, detail=str(e))
  \<close>
\<close>

definition chat ::
  "(string \<Rightarrow> 'w \<Rightarrow> (pyexc + agent_run_result) \<times> 'w) \<Rightarrow> query_request \<Rightarrow> 'w
     \<Rightarrow> (chat_raised + pyval) \<times> 'w" where
  "chat run_sync request w =
     (case run_sync (query request) w of
        (Inr response, w') \<Rightarrow> (Inr (PDict [(''response'', PStr (run_output response))]), w')
      | (Inl e, w') \<Rightarrow>
          if is_Exception e
          then (Inl (HTTPException 500 (exc_str e)), w')
          else (Inl (Propagated e), w'))"

text \<open>An agent for the examples: every run of it raises \<open>e\<close>.\<close>

definition agent_raising :: "pyexc \<Rightarrow> string \<Rightarrow> unit \<Rightarrow> (pyexc + agent_run_result) \<times> unit" where
  "agent_raising e q w = (Inl e, w)"

section \<open>The Sleeper tools: \<open>my_mcp/sleeper_fantasy.py\<close>\<close>

text \<open>
  What \<open>response.json()\<close> builds: \<open>None\<close> (here \<open>JNull\<close>), a bool, an int, a float (known
  by its \<open>repr\<close>), a str, a list, or a dict with string keys (its items in order, keys
  distinct).
\<close>

datatype json =
    JNull
  | JBool bool
  | JInt int
  | JFloat string
  | JStr string
  | JArray "json list"
  | JObject "(string \<times> json) list"

fun type_name :: "json \<Rightarrow> string" where
  "type_name JNull = ''NoneType''"
| "type_name (JBool _) = ''bool''"
| "type_name (JInt _) = ''int''"
| "type_name (JFloat _) = ''float''"
| "type_name (JStr _) = ''str''"
| "type_name (JArray _) = ''list''"
| "type_name (JObject _) = ''dict''"

fun isinstance_list :: "json \<Rightarrow> bool" where
  "isinstance_list (JArray _) = True"
| "isinstance_list _ = False"

fun isinstance_dict :: "json \<Rightarrow> bool" where
  "isinstance_dict (JObject _) = True"
| "isinstance_dict _ = False"

text \<open>
  \<open>data.get(key, default)\<close>: a dict answers with the key's value or the default; no other
  value that \<open>response.json()\<close> builds has a \<open>get\<close> attribute, so the call raises
  \<open>AttributeError\<close>.
\<close>

fun json_get :: "json \<Rightarrow> string \<Rightarrow> json \<Rightarrow> pyexc + json" where
  "json_get (JObject kvs) key dflt =
     Inr (case map_of kvs key of Some v \<Rightarrow> v | None \<Rightarrow> dflt)"
| "json_get data key dflt =
     Inl (PyExc ''AttributeError'' (no_attribute (type_name data) ''get''))"

text \<open>
  The HTTP client is \<open>httpx\<close>'s: a parameter. \<open>hx_open\<close> is \<open>httpx.AsyncClient()\<close> and the
  entry of the \<open>async with\<close> block, which gives the client or raises; \<open>hx_get\<close> is
  \<open>client.get(url, timeout=30.0)\<close>, which performs the request on the world \<open>'w\<close> and
  returns a response or raises (connection error, timeout, cancellation);
  \<open>hx_raise_for_status\<close> raises on an error status; \<open>hx_json\<close> decodes the body or raises;
  \<open>hx_close\<close> is the exit of the \<open>async with\<close> block, which closes the client or raises
  (it never suppresses an exception of the block).
\<close>

record ('c, 'r, 'w) httpx =
  hx_open :: "'w \<Rightarrow> (pyexc + 'c) \<times> 'w"
  hx_get :: "'c \<Rightarrow> string \<Rightarrow> 'w \<Rightarrow> (pyexc + 'r) \<times> 'w"
  hx_raise_for_status :: "'r \<Rightarrow> pyexc + unit"
  hx_json :: "'r \<Rightarrow> pyexc + json"
  hx_close :: "'c \<Rightarrow> 'w \<Rightarrow> (pyexc + unit) \<times> 'w"

definition SLEEPER_API_BASE :: string where
  "SLEEPER_API_BASE = ''https://api.sleeper.app/v1''"

text \<open>
  \<^verbatim>\<open>
  async def make_sleeper_request(url):
      async with httpx.AsyncClient() as client:
          try:
              response = await client.get(url, timeout=30.0)
              response.raise_for_status()
              return response.json()
          except Exception as e:
              return None
  \<close>
  The handler \<open>except Exception as e: return None\<close>: an \<open>Exception\<close> becomes the return
  value \<open>None\<close>, anything else goes on.
\<close>

definition except_Exception :: "pyexc \<Rightarrow> pyexc + json" where
  "except_Exception e = (if is_Exception e then Inr JNull else Inl e)"

text \<open>The \<open>try\<close> statement, run with the open client.\<close>

definition try_request ::
  "('c, 'r, 'w) httpx \<Rightarrow> 'c \<Rightarrow> string \<Rightarrow> 'w \<Rightarrow> (pyexc + json) \<times> 'w" where
  "try_request hx client url w =
     (case hx_get hx client url w of
        (Inl e, w') \<Rightarrow> (except_Exception e, w')
      | (Inr response, w') \<Rightarrow>
          (case hx_raise_for_status hx response of
             Inl e \<Rightarrow> (except_Exception e, w')
           | Inr _ \<Rightarrow>
               (case hx_json hx response of
                  Inl e \<Rightarrow> (except_Exception e, w')
                | Inr v \<Rightarrow> (Inr v, w'))))"

text \<open>
  The whole function: the \<open>try\<close> statement lies inside the \<open>async with\<close> block, so a
  raise of the block's entry or exit is not handled. The exit runs whether the \<open>try\<close>
  statement returned or raised; when the exit itself raises, that is what the caller sees.
\<close>

definition make_sleeper_request ::
  "('c, 'r, 'w) httpx \<Rightarrow> string \<Rightarrow> 'w \<Rightarrow> (pyexc + json) \<times> 'w" where
  "make_sleeper_request hx url w =
     (case hx_open hx w of
        (Inl e, w1) \<Rightarrow> (Inl e, w1)
      | (Inr client, w1) \<Rightarrow>
          (case try_request hx client url w1 of
             (outcome, w2) \<Rightarrow>
               (case hx_close hx client w2 of
                  (Inl e, w3) \<Rightarrow> (Inl e, w3)
                | (Inr _, w3) \<Rightarrow> (outcome, w3))))"

definition NL :: string where
  "NL = [CHR 0x0A]"

text \<open>
  An f-string evaluates and formats its fields from left to right; \<open>fmt\<close> is Python's
  formatting of a value (\<open>format(v, '')\<close>, for these values \<open>str(v)\<close>), a parameter. The
  first field that raises ends the evaluation.
\<close>

definition user_info :: "(json \<Rightarrow> string) \<Rightarrow> json \<Rightarrow> pyexc + string" where
  "user_info fmt data =
     (case json_get data ''user_id'' (JStr ''N/A'') of
        Inl e \<Rightarrow> Inl e
      | Inr user_id \<Rightarrow>
     (case json_get data ''username'' (JStr ''N/A'') of
        Inl e \<Rightarrow> Inl e
      | Inr username \<Rightarrow>
     (case json_get data ''display_name'' (JStr ''N/A'') of
        Inl e \<Rightarrow> Inl e
      | Inr display_name \<Rightarrow>
     (case json_get data ''avatar'' (JStr ''N/A'') of
        Inl e \<Rightarrow> Inl e
      | Inr avatar \<Rightarrow>
          Inr (NL @ ''User ID: '' @ fmt user_id @ NL
               @ ''Username: '' @ fmt username @ NL
               @ ''Display Name: '' @ fmt display_name @ NL
               @ ''Avatar ID: '' @ fmt avatar @ NL)))))"

text \<open>
  \<^verbatim>\<open>
  @mcp.tool()
  async def get_user(username: str) -> str:
      url = f"{SLEEPER_API_BASE}/user/{username}"
      data = await make_sleeper_request(url)
      if data is None:
          return f"Unable to fetch user information for username: {username}"
      return f"""
  User ID: {data.get('user_id', 'N/A')}
  Username: {data.get('username', 'N/A')}
  Display Name: {data.get('display_name', 'N/A')}
  Avatar ID: {data.get('avatar', 'N/A')}
  """
  \<close>
\<close>

definition get_user ::
  "(json \<Rightarrow> string) \<Rightarrow> ('c, 'r, 'w) httpx \<Rightarrow> string \<Rightarrow> 'w \<Rightarrow> (pyexc + string) \<times> 'w" where
  "get_user fmt hx username w =
     (let url = SLEEPER_API_BASE @ ''/user/'' @ username in
      case make_sleeper_request hx url w of
        (Inl e, w') \<Rightarrow> (Inl e, w')
      | (Inr data, w') \<Rightarrow>
          if data = JNull
          then (Inr (''Unable to fetch user information for username: '' @ username), w')
          else (user_info fmt data, w'))"

text \<open>The body of the loop of \<open>get_user_leagues\<close>: one league's block of text.\<close>

definition league_info :: "(json \<Rightarrow> string) \<Rightarrow> json \<Rightarrow> pyexc + string" where
  "league_info fmt league =
     (case json_get league ''name'' (JStr ''Unknown'') of
        Inl e \<Rightarrow> Inl e
      | Inr name \<Rightarrow>
     (case json_get league ''league_id'' (JStr ''N/A'') of
        Inl e \<Rightarrow> Inl e
      | Inr league_id \<Rightarrow>
     (case json_get league ''status'' (JStr ''N/A'') of
        Inl e \<Rightarrow> Inl e
      | Inr status \<Rightarrow>
     (case json_get league ''total_rosters'' (JStr ''N/A'') of
        Inl e \<Rightarrow> Inl e
      | Inr total_rosters \<Rightarrow>
     (case json_get league ''season'' (JStr ''N/A'') of
        Inl e \<Rightarrow> Inl e
      | Inr season \<Rightarrow>
     (case json_get league ''draft_id'' (JStr ''N/A'') of
        Inl e \<Rightarrow> Inl e
      | Inr draft_id \<Rightarrow>
          Inr (NL @ ''League Name: '' @ fmt name @ NL
               @ ''League ID: '' @ fmt league_id @ NL
               @ ''Status: '' @ fmt status @ NL
               @ ''Total Rosters: '' @ fmt total_rosters @ NL
               @ ''Season: '' @ fmt season @ NL
               @ ''Draft ID: '' @ fmt draft_id @ NL)))))))"

text \<open>The loop \<open>for league in data: leagues_info.append(...)\<close>; it stops where a block raises.\<close>

fun leagues_info :: "(json \<Rightarrow> string) \<Rightarrow> json list \<Rightarrow> pyexc + string list" where
  "leagues_info fmt [] = Inr []"
| "leagues_info fmt (league # rest) =
     (case league_info fmt league of
        Inl e \<Rightarrow> Inl e
      | Inr block \<Rightarrow>
          (case leagues_info fmt rest of
             Inl e \<Rightarrow> Inl e
           | Inr blocks \<Rightarrow> Inr (block # blocks)))"

text \<open>\<open>sep.join(parts)\<close>.\<close>

fun join :: "string \<Rightarrow> string list \<Rightarrow> string" where
  "join sep [] = []"
| "join sep [p] = p"
| "join sep (p # q # ps) = p @ sep @ join sep (q # ps)"

text \<open>
  \<^verbatim>\<open>
  @mcp.tool()
  async def get_user_leagues(user_id, sport="nfl", season="2024"):
      url = f"{SLEEPER_API_BASE}/user/{user_id}/leagues/{sport}/{season}"
      data = await make_sleeper_request(url)
      if data is None or not isinstance(data, list):
          return f"Unable to fetch leagues for user_id: {user_id}"
      if len(data) == 0:
          return f"No leagues found for user_id: {user_id} in {sport} {season}"
      leagues_info = []
      for league in data:
          ...
      return "\n---\n".join(leagues_info)
  \<close>
\<close>

definition get_user_leagues ::
  "(json \<Rightarrow> string) \<Rightarrow> ('c, 'r, 'w) httpx \<Rightarrow> string \<Rightarrow> string \<Rightarrow> string \<Rightarrow> 'w
     \<Rightarrow> (pyexc + string) \<times> 'w" where
  "get_user_leagues fmt hx user_id sport season w =
     (let url = SLEEPER_API_BASE @ ''/user/'' @ user_id @ ''/leagues/'' @ sport @ ''/'' @ season in
      case make_sleeper_request hx url w of
        (Inl e, w') \<Rightarrow> (Inl e, w')
      | (Inr data, w') \<Rightarrow>
          (case data of
             JArray leagues \<Rightarrow>
               if length leagues = 0
               then (Inr (''No leagues found for user_id: '' @ user_id @ '' in '' @ sport
                          @ '' '' @ season), w')
               else (case leagues_info fmt leagues of
                       Inl e \<Rightarrow> (Inl e, w')
                     | Inr blocks \<Rightarrow> (Inr (join (NL @ ''---'' @ NL) blocks), w'))
           | _ \<Rightarrow> (Inr (''Unable to fetch leagues for user_id: '' @ user_id), w')))"

subsection \<open>The other tools\<close>

text \<open>
  The other tools are written with the helpers below. An f-string is a sequence of
  literal text and replacement fields; its fields are evaluated and formatted from left
  to right and the first that raises ends it. A loop that appends one text per item
  stops at the first item that raises.
\<close>

datatype segment = Lit string | Field "pyexc + json"

fun fstring :: "(json \<Rightarrow> string) \<Rightarrow> segment list \<Rightarrow> pyexc + string" where
  "fstring fmt [] = Inr []"
| "fstring fmt (Lit text # rest) =
     (case fstring fmt rest of Inl e \<Rightarrow> Inl e | Inr t \<Rightarrow> Inr (text @ t))"
| "fstring fmt (Field (Inl e) # rest) = Inl e"
| "fstring fmt (Field (Inr v) # rest) =
     (case fstring fmt rest of Inl e \<Rightarrow> Inl e | Inr t \<Rightarrow> Inr (fmt v @ t))"

fun for_each :: "('a \<Rightarrow> pyexc + 'b) \<Rightarrow> 'a list \<Rightarrow> pyexc + 'b list" where
  "for_each body [] = Inr []"
| "for_each body (x # xs) =
     (case body x of
        Inl e \<Rightarrow> Inl e
      | Inr y \<Rightarrow> (case for_each body xs of Inl e \<Rightarrow> Inl e | Inr ys \<Rightarrow> Inr (y # ys)))"

text \<open>
  \<open>len(v)\<close>: the length of a list, a dict or a str; \<open>TypeError\<close> for the other values
  that \<open>response.json()\<close> builds.
\<close>

fun py_len :: "json \<Rightarrow> pyexc + json" where
  "py_len (JArray xs) = Inr (JInt (int (length xs)))"
| "py_len (JObject kvs) = Inr (JInt (int (length kvs)))"
| "py_len (JStr s) = Inr (JInt (int (length s)))"
| "py_len v = Inl (PyExc ''TypeError'' (''object of type '' @ quoted (type_name v) @ '' has no len()''))"

text \<open>\<open>data.get(k1, d1).get(k2, d2)\<close>.\<close>

definition json_get_in :: "json \<Rightarrow> string \<Rightarrow> json \<Rightarrow> string \<Rightarrow> json \<Rightarrow> pyexc + json" where
  "json_get_in data k1 d1 k2 d2 =
     (case json_get data k1 d1 of Inl e \<Rightarrow> Inl e | Inr inner \<Rightarrow> json_get inner k2 d2)"

text \<open>
  Python's runtime, beyond formatting: \<open>str.title()\<close> and the equality \<open>==\<close> by which a
  dict compares its keys. They are parameters.
\<close>

record python =
  py_format :: "json \<Rightarrow> string"
  py_title :: "string \<Rightarrow> string"
  py_eq :: "json \<Rightarrow> json \<Rightarrow> bool"

definition LEAGUE_ID :: string where
  "LEAGUE_ID = ''1182861335834730496''"

text \<open>
  \<^verbatim>\<open>
  async def get_league(league_id: str = LEAGUE_ID) -> str:
      url = f"{SLEEPER_API_BASE}/league/{league_id}"
      data = await make_sleeper_request(url)
      if data is None:
          return f"Unable to fetch league information for league_id: {league_id}"
      return f"""
  League Name: {data.get('name', 'Unknown')}
  ... (nine fields)
  """
  \<close>
\<close>

definition league_details :: "(json \<Rightarrow> string) \<Rightarrow> json \<Rightarrow> pyexc + string" where
  "league_details fmt data =
     fstring fmt
       [Lit (NL @ ''League Name: ''), Field (json_get data ''name'' (JStr ''Unknown'')),
        Lit (NL @ ''League ID: ''), Field (json_get data ''league_id'' (JStr ''N/A'')),
        Lit (NL @ ''Status: ''), Field (json_get data ''status'' (JStr ''N/A'')),
        Lit (NL @ ''Sport: ''), Field (json_get data ''sport'' (JStr ''N/A'')),
        Lit (NL @ ''Season: ''), Field (json_get data ''season'' (JStr ''N/A'')),
        Lit (NL @ ''Season Type: ''), Field (json_get data ''season_type'' (JStr ''N/A'')),
        Lit (NL @ ''Total Rosters: ''), Field (json_get data ''total_rosters'' (JStr ''N/A'')),
        Lit (NL @ ''Draft ID: ''), Field (json_get data ''draft_id'' (JStr ''N/A'')),
        Lit (NL @ ''Previous League ID: ''),
        Field (json_get data ''previous_league_id'' (JStr ''N/A'')),
        Lit NL]"

definition get_league ::
  "(json \<Rightarrow> string) \<Rightarrow> ('c, 'r, 'w) httpx \<Rightarrow> string \<Rightarrow> 'w \<Rightarrow> (pyexc + string) \<times> 'w" where
  "get_league fmt hx league_id w =
     (let url = SLEEPER_API_BASE @ ''/league/'' @ league_id in
      case make_sleeper_request hx url w of
        (Inl e, w') \<Rightarrow> (Inl e, w')
      | (Inr data, w') \<Rightarrow>
          if data = JNull
          then (Inr (''Unable to fetch league information for league_id: '' @ league_id), w')
          else (league_details fmt data, w'))"

text \<open>
  \<^verbatim>\<open>
  async def get_league_rosters(league_id: str = LEAGUE_ID) -> str:
      url = f"{SLEEPER_API_BASE}/league/{league_id}/rosters"
      data = await make_sleeper_request(url)
      if data is None or not isinstance(data, list):
          return f"Unable to fetch rosters for league_id: {league_id}"
      if len(data) == 0:
          return f"No rosters found for league_id: {league_id}"
      rosters_info = []
      for roster in data:
          settings = roster.get('settings', {})
          roster_info = f"""
  Roster ID: {roster.get('roster_id', 'N/A')}
  Owner ID: {roster.get('owner_id', 'N/A')}
  Wins: {settings.get('wins', 0)}
  Losses: {settings.get('losses', 0)}
  Ties: {settings.get('ties', 0)}
  Points For: {settings.get('fpts', 0)}.{settings.get('fpts_decimal', 0)}
  Points Against: {settings.get('fpts_against', 0)}.{settings.get('fpts_against_decimal', 0)}
  Total Moves: {settings.get('total_moves', 0)}
  Waiver Position: {settings.get('waiver_position', 'N/A')}
  Player Count: {len(roster.get('players', []))}
  """
          rosters_info.append(roster_info)
      return "\n---\n".join(rosters_info)
  \<close>
\<close>

definition roster_info :: "(json \<Rightarrow> string) \<Rightarrow> json \<Rightarrow> pyexc + string" where
  "roster_info fmt roster =
     (case json_get roster ''settings'' (JObject []) of
        Inl e \<Rightarrow> Inl e
      | Inr settings \<Rightarrow>
          fstring fmt
            [Lit (NL @ ''Roster ID: ''), Field (json_get roster ''roster_id'' (JStr ''N/A'')),
             Lit (NL @ ''Owner ID: ''), Field (json_get roster ''owner_id'' (JStr ''N/A'')),
             Lit (NL @ ''Wins: ''), Field (json_get settings ''wins'' (JInt 0)),
             Lit (NL @ ''Losses: ''), Field (json_get settings ''losses'' (JInt 0)),
             Lit (NL @ ''Ties: ''), Field (json_get settings ''ties'' (JInt 0)),
             Lit (NL @ ''Points For: ''), Field (json_get settings ''fpts'' (JInt 0)),
             Lit ''.'', Field (json_get settings ''fpts_decimal'' (JInt 0)),
             Lit (NL @ ''Points Against: ''), Field (json_get settings ''fpts_against'' (JInt 0)),
             Lit ''.'', Field (json_get settings ''fpts_against_decimal'' (JInt 0)),
             Lit (NL @ ''Total Moves: ''), Field (json_get settings ''total_moves'' (JInt 0)),
             Lit (NL @ ''Waiver Position: ''),
             Field (json_get settings ''waiver_position'' (JStr ''N/A'')),
             Lit (NL @ ''Player Count: ''),
             Field (case json_get roster ''players'' (JArray []) of
                      Inl e \<Rightarrow> Inl e
                    | Inr players \<Rightarrow> py_len players),
             Lit NL])"

definition get_league_rosters ::
  "(json \<Rightarrow> string) \<Rightarrow> ('c, 'r, 'w) httpx \<Rightarrow> string \<Rightarrow> 'w \<Rightarrow> (pyexc + string) \<times> 'w" where
  "get_league_rosters fmt hx league_id w =
     (let url = SLEEPER_API_BASE @ ''/league/'' @ league_id @ ''/rosters'' in
      case make_sleeper_request hx url w of
        (Inl e, w') \<Rightarrow> (Inl e, w')
      | (Inr data, w') \<Rightarrow>
          (case data of
             JArray rosters \<Rightarrow>
               if length rosters = 0
               then (Inr (''No rosters found for league_id: '' @ league_id), w')
               else (case for_each (roster_info fmt) rosters of
                       Inl e \<Rightarrow> (Inl e, w')
                     | Inr blocks \<Rightarrow> (Inr (join (NL @ ''---'' @ NL) blocks), w'))
           | _ \<Rightarrow> (Inr (''Unable to fetch rosters for league_id: '' @ league_id), w')))"

text \<open>
  \<^verbatim>\<open>
  async def get_league_users(league_id: str = LEAGUE_ID) -> str:
      url = f"{SLEEPER_API_BASE}/league/{league_id}/users"
      data = await make_sleeper_request(url)
      if data is None or not isinstance(data, list):
          return f"Unable to fetch users for league_id: {league_id}"
      if len(data) == 0:
          return f"No users found for league_id: {league_id}"
      users_info = []
      for user in data:
          metadata = user.get('metadata', {})
          user_info = f"""
  User ID: {user.get('user_id', 'N/A')}
  Username: {user.get('username', 'N/A')}
  Display Name: {user.get('display_name', 'N/A')}
  Team Name: {metadata.get('team_name', 'N/A')}
  Is Commissioner: {user.get('is_owner', False)}
  """
          users_info.append(user_info)
      return "\n---\n".join(users_info)
  \<close>
\<close>

definition league_user_info :: "(json \<Rightarrow> string) \<Rightarrow> json \<Rightarrow> pyexc + string" where
  "league_user_info fmt user =
     (case json_get user ''metadata'' (JObject []) of
        Inl e \<Rightarrow> Inl e
      | Inr metadata \<Rightarrow>
          fstring fmt
            [Lit (NL @ ''User ID: ''), Field (json_get user ''user_id'' (JStr ''N/A'')),
             Lit (NL @ ''Username: ''), Field (json_get user ''username'' (JStr ''N/A'')),
             Lit (NL @ ''Display Name: ''), Field (json_get user ''display_name'' (JStr ''N/A'')),
             Lit (NL @ ''Team Name: ''), Field (json_get metadata ''team_name'' (JStr ''N/A'')),
             Lit (NL @ ''Is Commissioner: ''), Field (json_get user ''is_owner'' (JBool False)),
             Lit NL])"

definition get_league_users ::
  "(json \<Rightarrow> string) \<Rightarrow> ('c, 'r, 'w) httpx \<Rightarrow> string \<Rightarrow> 'w \<Rightarrow> (pyexc + string) \<times> 'w" where
  "get_league_users fmt hx league_id w =
     (let url = SLEEPER_API_BASE @ ''/league/'' @ league_id @ ''/users'' in
      case make_sleeper_request hx url w of
        (Inl e, w') \<Rightarrow> (Inl e, w')
      | (Inr data, w') \<Rightarrow>
          (case data of
             JArray users \<Rightarrow>
               if length users = 0
               then (Inr (''No users found for league_id: '' @ league_id), w')
               else (case for_each (league_user_info fmt) users of
                       Inl e \<Rightarrow> (Inl e, w')
                     | Inr blocks \<Rightarrow> (Inr (join (NL @ ''---'' @ NL) blocks), w'))
           | _ \<Rightarrow> (Inr (''Unable to fetch users for league_id: '' @ league_id), w')))"

text \<open>
  \<^verbatim>\<open>
  async def get_matchups(league_id: str = LEAGUE_ID, week: int = 9) -> str:
      url = f"{SLEEPER_API_BASE}/league/{league_id}/matchups/{week}"
      data = await make_sleeper_request(url)
      if data is None or not isinstance(data, list):
          return f"Unable to fetch matchups for league_id: {league_id}, week: {week}"
      if len(data) == 0:
          return f"No matchups found for league_id: {league_id}, week: {week}"
      matchups_dict: dict[int, list] = {}
      for matchup in data:
          matchup_id = matchup.get('matchup_id')
          if matchup_id is not None:
              if matchup_id not in matchups_dict:
                  matchups_dict[matchup_id] = []
              matchups_dict[matchup_id].append(matchup)
      matchups_info = []
      for matchup_id, teams in matchups_dict.items():
          matchup_str = f"Matchup {matchup_id}:\n"
          for team in teams:
              matchup_str += f"  Roster ID: {team.get('roster_id', 'N/A')}, Points: {team.get('points', 0)}\n"
          matchups_info.append(matchup_str)
      return "\n".join(matchups_info)
  \<close>
  \<open>matchups_dict\<close> keeps its keys in the order of their first insertion; a key that is a
  list or a dict cannot be hashed, and the membership test raises \<open>TypeError\<close>.
\<close>

fun dict_append :: "(json \<Rightarrow> json \<Rightarrow> bool) \<Rightarrow> (json \<times> json list) list \<Rightarrow> json \<Rightarrow> json
    \<Rightarrow> (json \<times> json list) list" where
  "dict_append eq [] k v = [(k, [v])]"
| "dict_append eq ((k', vs) # rest) k v =
     (if eq k' k then (k', vs @ [v]) # rest else (k', vs) # dict_append eq rest k v)"

fun group_matchups :: "(json \<Rightarrow> json \<Rightarrow> bool) \<Rightarrow> json list \<Rightarrow> (json \<times> json list) list
    \<Rightarrow> pyexc + (json \<times> json list) list" where
  "group_matchups eq [] matchups_dict = Inr matchups_dict"
| "group_matchups eq (matchup # rest) matchups_dict =
     (case json_get matchup ''matchup_id'' JNull of
        Inl e \<Rightarrow> Inl e
      | Inr matchup_id \<Rightarrow>
          if matchup_id = JNull then group_matchups eq rest matchups_dict
          else if isinstance_list matchup_id \<or> isinstance_dict matchup_id
          then Inl (PyExc ''TypeError'' (''unhashable type: '' @ quoted (type_name matchup_id)))
          else group_matchups eq rest (dict_append eq matchups_dict matchup_id matchup))"

definition team_line :: "(json \<Rightarrow> string) \<Rightarrow> json \<Rightarrow> pyexc + string" where
  "team_line fmt team =
     fstring fmt
       [Lit ''  Roster ID: '', Field (json_get team ''roster_id'' (JStr ''N/A'')),
        Lit '', Points: '', Field (json_get team ''points'' (JInt 0)),
        Lit NL]"

definition matchup_str :: "(json \<Rightarrow> string) \<Rightarrow> json \<times> json list \<Rightarrow> pyexc + string" where
  "matchup_str fmt item =
     (case item of
        (matchup_id, teams) \<Rightarrow>
          (case for_each (team_line fmt) teams of
             Inl e \<Rightarrow> Inl e
           | Inr team_lines \<Rightarrow>
               Inr (''Matchup '' @ fmt matchup_id @ '':'' @ NL @ concat team_lines)))"

definition get_matchups ::
  "python \<Rightarrow> ('c, 'r, 'w) httpx \<Rightarrow> string \<Rightarrow> int \<Rightarrow> 'w \<Rightarrow> (pyexc + string) \<times> 'w" where
  "get_matchups py hx league_id week w =
     (let url = SLEEPER_API_BASE @ ''/league/'' @ league_id @ ''/matchups/''
                @ py_format py (JInt week) in
      case make_sleeper_request hx url w of
        (Inl e, w') \<Rightarrow> (Inl e, w')
      | (Inr data, w') \<Rightarrow>
          (case data of
             JArray matchups \<Rightarrow>
               if length matchups = 0
               then (Inr (''No matchups found for league_id: '' @ league_id @ '', week: ''
                          @ py_format py (JInt week)), w')
               else (case group_matchups (py_eq py) matchups [] of
                       Inl e \<Rightarrow> (Inl e, w')
                     | Inr matchups_dict \<Rightarrow>
                         (case for_each (matchup_str (py_format py)) matchups_dict of
                            Inl e \<Rightarrow> (Inl e, w')
                          | Inr matchups_info \<Rightarrow> (Inr (join NL matchups_info), w')))
           | _ \<Rightarrow> (Inr (''Unable to fetch matchups for league_id: '' @ league_id @ '', week: ''
                        @ py_format py (JInt week)), w')))"

text \<open>
  \<^verbatim>\<open>
  async def get_user_drafts(user_id: str, sport: str = "nfl", season: str = "2024") -> str:
      url = f"{SLEEPER_API_BASE}/user/{user_id}/drafts/{sport}/{season}"
      data = await make_sleeper_request(url)
      if data is None or not isinstance(data, list):
          return f"Unable to fetch drafts for user_id: {user_id}"
      if len(data) == 0:
          return f"No drafts found for user_id: {user_id} in {sport} {season}"
      drafts_info = []
      for draft in data:
          draft_info = f"""
  Draft ID: {draft.get('draft_id', 'N/A')}
  Status: {draft.get('status', 'N/A')}
  Type: {draft.get('type', 'N/A')}
  Season: {draft.get('season', 'N/A')}
  League ID: {draft.get('league_id', 'N/A')}
  """
          drafts_info.append(draft_info)
      return "\n---\n".join(drafts_info)
  \<close>
\<close>

definition draft_info :: "(json \<Rightarrow> string) \<Rightarrow> json \<Rightarrow> pyexc + string" where
  "draft_info fmt draft =
     fstring fmt
       [Lit (NL @ ''Draft ID: ''), Field (json_get draft ''draft_id'' (JStr ''N/A'')),
        Lit (NL @ ''Status: ''), Field (json_get draft ''status'' (JStr ''N/A'')),
        Lit (NL @ ''Type: ''), Field (json_get draft ''type'' (JStr ''N/A'')),
        Lit (NL @ ''Season: ''), Field (json_get draft ''season'' (JStr ''N/A'')),
        Lit (NL @ ''League ID: ''), Field (json_get draft ''league_id'' (JStr ''N/A'')),
        Lit NL]"

definition get_user_drafts ::
  "(json \<Rightarrow> string) \<Rightarrow> ('c, 'r, 'w) httpx \<Rightarrow> string \<Rightarrow> string \<Rightarrow> string \<Rightarrow> 'w
     \<Rightarrow> (pyexc + string) \<times> 'w" where
  "get_user_drafts fmt hx user_id sport season w =
     (let url = SLEEPER_API_BASE @ ''/user/'' @ user_id @ ''/drafts/'' @ sport @ ''/'' @ season in
      case make_sleeper_request hx url w of
        (Inl e, w') \<Rightarrow> (Inl e, w')
      | (Inr data, w') \<Rightarrow>
          (case data of
             JArray drafts \<Rightarrow>
               if length drafts = 0
               then (Inr (''No drafts found for user_id: '' @ user_id @ '' in '' @ sport
                          @ '' '' @ season), w')
               else (case for_each (draft_info fmt) drafts of
                       Inl e \<Rightarrow> (Inl e, w')
                     | Inr blocks \<Rightarrow> (Inr (join (NL @ ''---'' @ NL) blocks), w'))
           | _ \<Rightarrow> (Inr (''Unable to fetch drafts for user_id: '' @ user_id), w')))"

text \<open>
  \<^verbatim>\<open>
  async def get_draft(draft_id: str) -> str:
      url = f"{SLEEPER_API_BASE}/draft/{draft_id}"
      data = await make_sleeper_request(url)
      if data is None:
          return f"Unable to fetch draft information for draft_id: {draft_id}"
      return f"""
  Draft ID: {data.get('draft_id', 'N/A')}
  Status: {data.get('status', 'N/A')}
  Type: {data.get('type', 'N/A')}
  Season: {data.get('season', 'N/A')}
  League ID: {data.get('league_id', 'N/A')}
  Sport: {data.get('sport', 'N/A')}
  Settings:
    Rounds: {data.get('settings', {}).get('rounds', 'N/A')}
    Teams: {data.get('settings', {}).get('teams', 'N/A')}
  """
  \<close>
\<close>

definition draft_details :: "(json \<Rightarrow> string) \<Rightarrow> json \<Rightarrow> pyexc + string" where
  "draft_details fmt data =
     fstring fmt
       [Lit (NL @ ''Draft ID: ''), Field (json_get data ''draft_id'' (JStr ''N/A'')),
        Lit (NL @ ''Status: ''), Field (json_get data ''status'' (JStr ''N/A'')),
        Lit (NL @ ''Type: ''), Field (json_get data ''type'' (JStr ''N/A'')),
        Lit (NL @ ''Season: ''), Field (json_get data ''season'' (JStr ''N/A'')),
        Lit (NL @ ''League ID: ''), Field (json_get data ''league_id'' (JStr ''N/A'')),
        Lit (NL @ ''Sport: ''), Field (json_get data ''sport'' (JStr ''N/A'')),
        Lit (NL @ ''Settings:'' @ NL @ ''  Rounds: ''),
        Field (json_get_in data ''settings'' (JObject []) ''rounds'' (JStr ''N/A'')),
        Lit (NL @ ''  Teams: ''),
        Field (json_get_in data ''settings'' (JObject []) ''teams'' (JStr ''N/A'')),
        Lit NL]"

definition get_draft ::
  "(json \<Rightarrow> string) \<Rightarrow> ('c, 'r, 'w) httpx \<Rightarrow> string \<Rightarrow> 'w \<Rightarrow> (pyexc + string) \<times> 'w" where
  "get_draft fmt hx draft_id w =
     (let url = SLEEPER_API_BASE @ ''/draft/'' @ draft_id in
      case make_sleeper_request hx url w of
        (Inl e, w') \<Rightarrow> (Inl e, w')
      | (Inr data, w') \<Rightarrow>
          if data = JNull
          then (Inr (''Unable to fetch draft information for draft_id: '' @ draft_id), w')
          else (draft_details fmt data, w'))"

text \<open>
  \<^verbatim>\<open>
  async def get_draft_picks(draft_id: str) -> str:
      url = f"{SLEEPER_API_BASE}/draft/{draft_id}/picks"
      data = await make_sleeper_request(url)
      if data is None or not isinstance(data, list):
          return f"Unable to fetch picks for draft_id: {draft_id}"
      if len(data) == 0:
          return f"No picks found for draft_id: {draft_id}"
      picks_info = []
      for pick in data[:20]:
          metadata = pick.get('metadata', {})
          pick_info = f"""
  Pick #{pick.get('pick_no', 'N/A')} (Round {pick.get('round', 'N/A')}, Slot {pick.get('draft_slot', 'N/A')}):
    Player: {metadata.get('first_name', '')} {metadata.get('last_name', 'Unknown')}
    Position: {metadata.get('position', 'N/A')}
    Team: {metadata.get('team', 'N/A')}
    Picked by Roster: {pick.get('roster_id', 'N/A')}
  """
          picks_info.append(pick_info)
      if len(data) > 20:
          picks_info.append(f"... and {len(data) - 20} more picks")
      return "\n".join(picks_info)
  \<close>
\<close>

definition pick_info :: "(json \<Rightarrow> string) \<Rightarrow> json \<Rightarrow> pyexc + string" where
  "pick_info fmt pick =
     (case json_get pick ''metadata'' (JObject []) of
        Inl e \<Rightarrow> Inl e
      | Inr metadata \<Rightarrow>
          fstring fmt
            [Lit (NL @ ''Pick #''), Field (json_get pick ''pick_no'' (JStr ''N/A'')),
             Lit '' (Round '', Field (json_get pick ''round'' (JStr ''N/A'')),
             Lit '', Slot '', Field (json_get pick ''draft_slot'' (JStr ''N/A'')),
             Lit (''):'' @ NL @ ''  Player: ''),
             Field (json_get metadata ''first_name'' (JStr [])),
             Lit '' '', Field (json_get metadata ''last_name'' (JStr ''Unknown'')),
             Lit (NL @ ''  Position: ''), Field (json_get metadata ''position'' (JStr ''N/A'')),
             Lit (NL @ ''  Team: ''), Field (json_get metadata ''team'' (JStr ''N/A'')),
             Lit (NL @ ''  Picked by Roster: ''),
             Field (json_get pick ''roster_id'' (JStr ''N/A'')),
             Lit NL])"

definition get_draft_picks ::
  "(json \<Rightarrow> string) \<Rightarrow> ('c, 'r, 'w) httpx \<Rightarrow> string \<Rightarrow> 'w \<Rightarrow> (pyexc + string) \<times> 'w" where
  "get_draft_picks fmt hx draft_id w =
     (let url = SLEEPER_API_BASE @ ''/draft/'' @ draft_id @ ''/picks'' in
      case make_sleeper_request hx url w of
        (Inl e, w') \<Rightarrow> (Inl e, w')
      | (Inr data, w') \<Rightarrow>
          (case data of
             JArray picks \<Rightarrow>
               if length picks = 0
               then (Inr (''No picks found for draft_id: '' @ draft_id), w')
               else (case for_each (pick_info fmt) (take 20 picks) of
                       Inl e \<Rightarrow> (Inl e, w')
                     | Inr picks_info \<Rightarrow>
                         (Inr (join NL
                                 (if length picks > 20
                                  then picks_info
                                       @ [''... and '' @ fmt (JInt (int (length picks) - 20))
                                          @ '' more picks'']
                                  else picks_info)), w'))
           | _ \<Rightarrow> (Inr (''Unable to fetch picks for draft_id: '' @ draft_id), w')))"

text \<open>
  \<^verbatim>\<open>
  async def get_trending_players(sport="nfl", trend_type="add", lookback_hours: int = 24,
                                 limit: int = 25) -> str:
      url = f"{SLEEPER_API_BASE}/players/{sport}/trending/{trend_type}?lookback_hours={lookback_hours}&limit={limit}"
      data = await make_sleeper_request(url)
      if data is None or not isinstance(data, list):
          return f"Unable to fetch trending {trend_type} players"
      if len(data) == 0:
          return f"No trending {trend_type} players found"
      trending_info = [f"Top {limit} Trending {trend_type.title()}s (Last {lookback_hours} hours):\n"]
      for i, player in enumerate(data, 1):
          trending_info.append(f"{i}. Player ID: {player.get('player_id', 'N/A')}, Count: {player.get('count', 0)}")
      return "\n".join(trending_info)
  \<close>
\<close>

fun trending_lines :: "(json \<Rightarrow> string) \<Rightarrow> int \<Rightarrow> json list \<Rightarrow> pyexc + string list" where
  "trending_lines fmt i [] = Inr []"
| "trending_lines fmt i (player # rest) =
     (case fstring fmt
             [Field (Inr (JInt i)),
              Lit ''. Player ID: '', Field (json_get player ''player_id'' (JStr ''N/A'')),
              Lit '', Count: '', Field (json_get player ''count'' (JInt 0))] of
        Inl e \<Rightarrow> Inl e
      | Inr line \<Rightarrow>
          (case trending_lines fmt (i + 1) rest of
             Inl e \<Rightarrow> Inl e
           | Inr others \<Rightarrow> Inr (line # others)))"

definition get_trending_players ::
  "python \<Rightarrow> ('c, 'r, 'w) httpx \<Rightarrow> string \<Rightarrow> string \<Rightarrow> int \<Rightarrow> int \<Rightarrow> 'w
     \<Rightarrow> (pyexc + string) \<times> 'w" where
  "get_trending_players py hx sport trend_type lookback_hours limit w =
     (let url = SLEEPER_API_BASE @ ''/players/'' @ sport @ ''/trending/'' @ trend_type
                @ ''?lookback_hours='' @ py_format py (JInt lookback_hours)
                @ ''&limit='' @ py_format py (JInt limit) in
      case make_sleeper_request hx url w of
        (Inl e, w') \<Rightarrow> (Inl e, w')
      | (Inr data, w') \<Rightarrow>
          (case data of
             JArray players \<Rightarrow>
               if length players = 0
               then (Inr (''No trending '' @ trend_type @ '' players found''), w')
               else (case trending_lines (py_format py) 1 players of
                       Inl e \<Rightarrow> (Inl e, w')
                     | Inr player_lines \<Rightarrow>
                         (Inr (join NL
                                 ((''Top '' @ py_format py (JInt limit) @ '' Trending ''
                                   @ py_title py trend_type @ ''s (Last ''
                                   @ py_format py (JInt lookback_hours) @ '' hours):'' @ NL)
                                  # player_lines)), w'))
           | _ \<Rightarrow> (Inr (''Unable to fetch trending '' @ trend_type @ '' players''), w')))"

text \<open>
  \<^verbatim>\<open>
  async def get_all_players(sport: str = "nfl") -> str:
      url = f"{SLEEPER_API_BASE}/players/{sport}"
      data = await make_sleeper_request(url)
      if data is None or not isinstance(data, dict):
          return f"Unable to fetch players for sport: {sport}"
      if len(data) == 0:
          return f"No players found for sport: {sport}"
      total_players = len(data)
      players_info = [f"Total Players: {total_players}\n"]
      for player_id, player in data.items():
          player_info = f"""
  Player ID: {player_id}
  Name: {player.get('first_name', '')} {player.get('last_name', 'Unknown')}
  Position: {player.get('position', 'N/A')}
  Team: {player.get('team', 'N/A')}
  Number: {player.get('number', 'N/A')}
  Status: {player.get('status', 'N/A')}
  College: {player.get('college', 'N/A')}
  Years Experience: {player.get('years_exp', 'N/A')}
  """
          players_info.append(player_info)
      return "\n---\n".join(players_info)
  \<close>
\<close>

definition player_info :: "(json \<Rightarrow> string) \<Rightarrow> string \<times> json \<Rightarrow> pyexc + string" where
  "player_info fmt item =
     (case item of
        (player_id, player) \<Rightarrow>
          fstring fmt
            [Lit (NL @ ''Player ID: '' @ player_id),
             Lit (NL @ ''Name: ''), Field (json_get player ''first_name'' (JStr [])),
             Lit '' '', Field (json_get player ''last_name'' (JStr ''Unknown'')),
             Lit (NL @ ''Position: ''), Field (json_get player ''position'' (JStr ''N/A'')),
             Lit (NL @ ''Team: ''), Field (json_get player ''team'' (JStr ''N/A'')),
             Lit (NL @ ''Number: ''), Field (json_get player ''number'' (JStr ''N/A'')),
             Lit (NL @ ''Status: ''), Field (json_get player ''status'' (JStr ''N/A'')),
             Lit (NL @ ''College: ''), Field (json_get player ''college'' (JStr ''N/A'')),
             Lit (NL @ ''Years Experience: ''),
             Field (json_get player ''years_exp'' (JStr ''N/A'')),
             Lit NL])"

definition get_all_players ::
  "(json \<Rightarrow> string) \<Rightarrow> ('c, 'r, 'w) httpx \<Rightarrow> string \<Rightarrow> 'w \<Rightarrow> (pyexc + string) \<times> 'w" where
  "get_all_players fmt hx sport w =
     (let url = SLEEPER_API_BASE @ ''/players/'' @ sport in
      case make_sleeper_request hx url w of
        (Inl e, w') \<Rightarrow> (Inl e, w')
      | (Inr data, w') \<Rightarrow>
          (case data of
             JObject players \<Rightarrow>
               if length players = 0
               then (Inr (''No players found for sport: '' @ sport), w')
               else (case for_each (player_info fmt) players of
                       Inl e \<Rightarrow> (Inl e, w')
                     | Inr blocks \<Rightarrow>
                         (Inr (join (NL @ ''---'' @ NL)
                                 ((''Total Players: '' @ fmt (JInt (int (length players))) @ NL)
                                  # blocks)), w'))
           | _ \<Rightarrow> (Inr (''Unable to fetch players for sport: '' @ sport), w')))"

text \<open>
  \<^verbatim>\<open>
  async def get_nfl_state() -> str:
      url = f"{SLEEPER_API_BASE}/state/nfl"
      data = await make_sleeper_request(url)
      if data is None:
          return "Unable to fetch NFL state information"
      return f"""
  Season: {data.get('season', 'N/A')}
  Season Type: {data.get('season_type', 'N/A')}
  Week: {data.get('week', 'N/A')}
  League Season: {data.get('league_season', 'N/A')}
  League Create Season: {data.get('league_create_season', 'N/A')}
  Display Week: {data.get('display_week', 'N/A')}
  """
  \<close>
\<close>

definition nfl_state_details :: "(json \<Rightarrow> string) \<Rightarrow> json \<Rightarrow> pyexc + string" where
  "nfl_state_details fmt data =
     fstring fmt
       [Lit (NL @ ''Season: ''), Field (json_get data ''season'' (JStr ''N/A'')),
        Lit (NL @ ''Season Type: ''), Field (json_get data ''season_type'' (JStr ''N/A'')),
        Lit (NL @ ''Week: ''), Field (json_get data ''week'' (JStr ''N/A'')),
        Lit (NL @ ''League Season: ''), Field (json_get data ''league_season'' (JStr ''N/A'')),
        Lit (NL @ ''League Create Season: ''),
        Field (json_get data ''league_create_season'' (JStr ''N/A'')),
        Lit (NL @ ''Display Week: ''), Field (json_get data ''display_week'' (JStr ''N/A'')),
        Lit NL]"

definition get_nfl_state ::
  "(json \<Rightarrow> string) \<Rightarrow> ('c, 'r, 'w) httpx \<Rightarrow> 'w \<Rightarrow> (pyexc + string) \<times> 'w" where
  "get_nfl_state fmt hx w =
     (let url = SLEEPER_API_BASE @ ''/state/nfl'' in
      case make_sleeper_request hx url w of
        (Inl e, w') \<Rightarrow> (Inl e, w')
      | (Inr data, w') \<Rightarrow>
          if data = JNull
          then (Inr ''Unable to fetch NFL state information'', w')
          else (nfl_state_details fmt data, w'))"

text \<open>
  The twelve tools of the server, and for each the test on \<open>data\<close> that guards its
  "Unable to fetch" return, as each tool writes it.
\<close>

datatype sleeper_tool =
    Get_user
  | Get_user_leagues
  | Get_league
  | Get_league_rosters
  | Get_league_users
  | Get_matchups
  | Get_user_drafts
  | Get_draft
  | Get_draft_picks
  | Get_trending_players
  | Get_all_players
  | Get_nfl_state

fun error_branch :: "sleeper_tool \<Rightarrow> json \<Rightarrow> bool" where
  "error_branch Get_user data = (data = JNull)"
| "error_branch Get_user_leagues data = (data = JNull \<or> \<not> isinstance_list data)"
| "error_branch Get_league data = (data = JNull)"
| "error_branch Get_league_rosters data = (data = JNull \<or> \<not> isinstance_list data)"
| "error_branch Get_league_users data = (data = JNull \<or> \<not> isinstance_list data)"
| "error_branch Get_matchups data = (data = JNull \<or> \<not> isinstance_list data)"
| "error_branch Get_user_drafts data = (data = JNull \<or> \<not> isinstance_list data)"
| "error_branch Get_draft data = (data = JNull)"
| "error_branch Get_draft_picks data = (data = JNull \<or> \<not> isinstance_list data)"
| "error_branch Get_trending_players data = (data = JNull \<or> \<not> isinstance_list data)"
| "error_branch Get_all_players data = (data = JNull \<or> \<not> isinstance_dict data)"
| "error_branch Get_nfl_state data = (data = JNull)"

text \<open>
  A call of one of the tools, with the arguments it is given, and the server running it.
\<close>

datatype tool_call =
    Call_get_user string
  | Call_get_user_leagues string string string
  | Call_get_league string
  | Call_get_league_rosters string
  | Call_get_league_users string
  | Call_get_matchups string int
  | Call_get_user_drafts string string string
  | Call_get_draft string
  | Call_get_draft_picks string
  | Call_get_trending_players string string int int
  | Call_get_all_players string
  | Call_get_nfl_state

fun tool_of :: "tool_call \<Rightarrow> sleeper_tool" where
  "tool_of (Call_get_user username) = Get_user"
| "tool_of (Call_get_user_leagues user_id sport season) = Get_user_leagues"
| "tool_of (Call_get_league league_id) = Get_league"
| "tool_of (Call_get_league_rosters league_id) = Get_league_rosters"
| "tool_of (Call_get_league_users league_id) = Get_league_users"
| "tool_of (Call_get_matchups league_id week) = Get_matchups"
| "tool_of (Call_get_user_drafts user_id sport season) = Get_user_drafts"
| "tool_of (Call_get_draft draft_id) = Get_draft"
| "tool_of (Call_get_draft_picks draft_id) = Get_draft_picks"
| "tool_of (Call_get_trending_players sport trend_type lookback_hours limit) = Get_trending_players"
| "tool_of (Call_get_all_players sport) = Get_all_players"
| "tool_of Call_get_nfl_state = Get_nfl_state"

fun run_tool ::
  "python \<Rightarrow> ('c, 'r, 'w) httpx \<Rightarrow> tool_call \<Rightarrow> 'w \<Rightarrow> (pyexc + string) \<times> 'w" where
  "run_tool py hx (Call_get_user username) w = get_user (py_format py) hx username w"
| "run_tool py hx (Call_get_user_leagues user_id sport season) w =
     get_user_leagues (py_format py) hx user_id sport season w"
| "run_tool py hx (Call_get_league league_id) w = get_league (py_format py) hx league_id w"
| "run_tool py hx (Call_get_league_rosters league_id) w =
     get_league_rosters (py_format py) hx league_id w"
| "run_tool py hx (Call_get_league_users league_id) w =
     get_league_users (py_format py) hx league_id w"
| "run_tool py hx (Call_get_matchups league_id week) w = get_matchups py hx league_id week w"
| "run_tool py hx (Call_get_user_drafts user_id sport season) w =
     get_user_drafts (py_format py) hx user_id sport season w"
| "run_tool py hx (Call_get_draft draft_id) w = get_draft (py_format py) hx draft_id w"
| "run_tool py hx (Call_get_draft_picks draft_id) w =
     get_draft_picks (py_format py) hx draft_id w"
| "run_tool py hx (Call_get_trending_players sport trend_type lookback_hours limit) w =
     get_trending_players py hx sport trend_type lookback_hours limit w"
| "run_tool py hx (Call_get_all_players sport) w = get_all_players (py_format py) hx sport w"
| "run_tool py hx Call_get_nfl_state w = get_nfl_state (py_format py) hx w"

text \<open>The URL a call requests, and the text its error branch returns.\<close>

fun request_url :: "python \<Rightarrow> tool_call \<Rightarrow> string" where
  "request_url py (Call_get_user username) = SLEEPER_API_BASE @ ''/user/'' @ username"
| "request_url py (Call_get_user_leagues user_id sport season) =
     SLEEPER_API_BASE @ ''/user/'' @ user_id @ ''/leagues/'' @ sport @ ''/'' @ season"
| "request_url py (Call_get_league league_id) = SLEEPER_API_BASE @ ''/league/'' @ league_id"
| "request_url py (Call_get_league_rosters league_id) =
     SLEEPER_API_BASE @ ''/league/'' @ league_id @ ''/rosters''"
| "request_url py (Call_get_league_users league_id) =
     SLEEPER_API_BASE @ ''/league/'' @ league_id @ ''/users''"
| "request_url py (Call_get_matchups league_id week) =
     SLEEPER_API_BASE @ ''/league/'' @ league_id @ ''/matchups/'' @ py_format py (JInt week)"
| "request_url py (Call_get_user_drafts user_id sport season) =
     SLEEPER_API_BASE @ ''/user/'' @ user_id @ ''/drafts/'' @ sport @ ''/'' @ season"
| "request_url py (Call_get_draft draft_id) = SLEEPER_API_BASE @ ''/draft/'' @ draft_id"
| "request_url py (Call_get_draft_picks draft_id) =
     SLEEPER_API_BASE @ ''/draft/'' @ draft_id @ ''/picks''"
| "request_url py (Call_get_trending_players sport trend_type lookback_hours limit) =
     SLEEPER_API_BASE @ ''/players/'' @ sport @ ''/trending/'' @ trend_type
     @ ''?lookback_hours='' @ py_format py (JInt lookback_hours)
     @ ''&limit='' @ py_format py (JInt limit)"
| "request_url py (Call_get_all_players sport) = SLEEPER_API_BASE @ ''/players/'' @ sport"
| "request_url py Call_get_nfl_state = SLEEPER_API_BASE @ ''/state/nfl''"

fun unable_message :: "python \<Rightarrow> tool_call \<Rightarrow> string" where
  "unable_message py (Call_get_user username) =
     ''Unable to fetch user information for username: '' @ username"
| "unable_message py (Call_get_user_leagues user_id sport season) =
     ''Unable to fetch leagues for user_id: '' @ user_id"
| "unable_message py (Call_get_league league_id) =
     ''Unable to fetch league information for league_id: '' @ league_id"
| "unable_message py (Call_get_league_rosters league_id) =
     ''Unable to fetch rosters for league_id: '' @ league_id"
| "unable_message py (Call_get_league_users league_id) =
     ''Unable to fetch users for league_id: '' @ league_id"
| "unable_message py (Call_get_matchups league_id week) =
     ''Unable to fetch matchups for league_id: '' @ league_id @ '', week: ''
     @ py_format py (JInt week)"
| "unable_message py (Call_get_user_drafts user_id sport season) =
     ''Unable to fetch drafts for user_id: '' @ user_id"
| "unable_message py (Call_get_draft draft_id) =
     ''Unable to fetch draft information for draft_id: '' @ draft_id"
| "unable_message py (Call_get_draft_picks draft_id) =
     ''Unable to fetch picks for draft_id: '' @ draft_id"
| "unable_message py (Call_get_trending_players sport trend_type lookback_hours limit) =
     ''Unable to fetch trending '' @ trend_type @ '' players''"
| "unable_message py (Call_get_all_players sport) =
     ''Unable to fetch players for sport: '' @ sport"
| "unable_message py Call_get_nfl_state = ''Unable to fetch NFL state information''"

text \<open>The tools whose guard is \<open>data is None\<close> alone.\<close>

definition none_tools :: "sleeper_tool set" where
  "none_tools = {Get_user, Get_league, Get_draft, Get_nfl_state}"

text \<open>
  Upstreams for the examples, whose client opens and closes without a raise: one that
  answers every request successfully with the JSON value \<open>v\<close>, and one whose request
  raises \<open>e\<close>. \<open>example_fmt\<close> agrees with Python's \<open>str\<close> on strings and on \<open>None\<close>, the
  only values the examples format.
\<close>

definition upstream_returning :: "json \<Rightarrow> (unit, unit, unit) httpx" where
  "upstream_returning v =
     \<lparr>hx_open = (\<lambda>w. (Inr (), w)),
      hx_get = (\<lambda>client url w. (Inr (), w)),
      hx_raise_for_status = (\<lambda>r. Inr ()),
      hx_json = (\<lambda>r. Inr v),
      hx_close = (\<lambda>client w. (Inr (), w))\<rparr>"

definition upstream_failing :: "pyexc \<Rightarrow> (unit, unit, unit) httpx" where
  "upstream_failing e =
     \<lparr>hx_open = (\<lambda>w. (Inr (), w)),
      hx_get = (\<lambda>client url w. (Inl e, w)),
      hx_raise_for_status = (\<lambda>r. Inr ()),
      hx_json = (\<lambda>r. Inr JNull),
      hx_close = (\<lambda>client w. (Inr (), w))\<rparr>"

definition example_fmt :: "json \<Rightarrow> string" where
  "example_fmt v = (case v of JStr s \<Rightarrow> s | _ \<Rightarrow> ''None'')"

text \<open>
  A runtime for the examples: \<open>example_fmt\<close> for formatting, the identity for
  \<open>title\<close>, and equality of values for \<open>==\<close>.
\<close>

definition example_python :: python where
  "example_python = \<lparr>py_format = example_fmt, py_title = (\<lambda>t. t), py_eq = (\<lambda>a b. a = b)\<rparr>"

text \<open>
  The tools whose guard also tests \<open>isinstance(data, list)\<close>.
\<close>

definition list_tools :: "sleeper_tool set" where
  "list_tools =
     {Get_user_leagues, Get_league_rosters, Get_league_users, Get_matchups,
      Get_user_drafts, Get_draft_picks, Get_trending_players}"

text \<open>A mechanism for the examples: every call of it raises \<open>e\<close>.\<close>

definition failing_mechanism :: "pyexc \<Rightarrow> unit call_tool_func" where
  "failing_mechanism e name tool_args metadata s = (Inl e, s)"

text \<open>
  "The request, the status check or the decoding raises \<open>e\<close>", with the world as the
  raise leaves it: what the \<open>try\<close> statement of \<open>make_sleeper_request\<close> can meet.
\<close>

definition try_raises ::
  "('c, 'r, 'w) httpx \<Rightarrow> 'c \<Rightarrow> string \<Rightarrow> 'w \<Rightarrow> pyexc \<Rightarrow> 'w \<Rightarrow> bool" where
  "try_raises hx client url w e w' =
     (hx_get hx client url w = (Inl e, w')
      \<or> (\<exists>response. hx_get hx client url w = (Inr response, w')
            \<and> (hx_raise_for_status hx response = Inl e
                \<or> (hx_raise_for_status hx response = Inr ()
                      \<and> hx_json hx response = Inl e))))"

section \<open>Properties of the dispatcher\<close>

lemma traced_process_tool_call:
  "process_tool_call ctx (traced call_tool) name tool_args (log, s) =
     (fst (call_tool name tool_args (Some [''deps'' \<mapsto> deps ctx]) s),
      log @ [invocation_of (ctx, name, tool_args)],
      snd (call_tool name tool_args (Some [''deps'' \<mapsto> deps ctx]) s))"
  by (simp add: process_tool_call_def traced_def invocation_of_def split: prod.split)

lemma echo_deps_with_deps:
  "d ''deps'' = Some v \<Longrightarrow>
   echo_deps \<lparr>request_context = \<lparr>meta = Some d\<rparr>\<rparr> s =
     (Inr (PDict [(''echo'', PStr ''This is an echo message''), (''deps'', v)]),
      s\<lparr>notifications := notifications s @ [(''info'', ''This is an info message'')]\<rparr>)"
  by (simp add: echo_deps_def getattr_meta_def ctx_info_def)

lemma dispatch_echo_deps:
  "process_tool_call ctx (call_registered_tool mcp_with_deps_tools) ''echo_deps'' tool_args s =
     (Inr (PDict [(''echo'', PStr ''This is an echo message''), (''deps'', deps ctx)]),
      s\<lparr>notifications := notifications s @ [(''info'', ''This is an info message'')]\<rparr>)"
  by (simp add: process_tool_call_def call_registered_tool_def mcp_with_deps_tools_def
      echo_deps_with_deps)

text \<open>
  C1: for every tool name, arguments and context, the dispatcher returns exactly what the
  tool mechanism returns when it is invoked directly with the same name and arguments and
  with the context under the metadata key \<open>deps\<close>, which is what the spec's wording of
  \<open>dispatch\<close> computes; the mechanism receives the name and the arguments unchanged, once;
  and where the mechanism is a registry in which the name is registered, the result is the
  registered tool's own, called with the arguments and that metadata.
\<close>

theorem process_tool_call_refines_dispatch_spec:
  "process_tool_call ctx call_tool name tool_args s =
     dispatch_spec call_tool name tool_args (deps ctx) s
   \<and> process_tool_call ctx (traced call_tool) name tool_args (log, s) =
       (fst (call_tool name tool_args (Some [''deps'' \<mapsto> deps ctx]) s),
        log @ [\<lparr>inv_name = name, inv_args = tool_args,
                 inv_meta = Some [''deps'' \<mapsto> deps ctx]\<rparr>],
        snd (call_tool name tool_args (Some [''deps'' \<mapsto> deps ctx]) s))
   \<and> (registry name = Some tool \<longrightarrow>
        process_tool_call ctx (call_registered_tool registry) name tool_args s' =
          tool tool_args (Some [''deps'' \<mapsto> deps ctx]) s')"
proof (intro conjI impI)
  show "process_tool_call ctx call_tool name tool_args s =
          dispatch_spec call_tool name tool_args (deps ctx) s"
    by (simp add: process_tool_call_def dispatch_spec_def)
next
  show "process_tool_call ctx (traced call_tool) name tool_args (log, s) =
       (fst (call_tool name tool_args (Some [''deps'' \<mapsto> deps ctx]) s),
        log @ [\<lparr>inv_name = name, inv_args = tool_args,
                 inv_meta = Some [''deps'' \<mapsto> deps ctx]\<rparr>],
        snd (call_tool name tool_args (Some [''deps'' \<mapsto> deps ctx]) s))"
    by (simp add: traced_process_tool_call invocation_of_def)
next
  assume "registry name = Some tool"
  then show "process_tool_call ctx (call_registered_tool registry) name tool_args s' =
          tool tool_args (Some [''deps'' \<mapsto> deps ctx]) s'"
    by (simp add: process_tool_call_def call_registered_tool_def)
qed

theorem process_tool_call_refines_dispatch_spec_witness:
  "mcp_with_deps_tools ''echo_deps''
     = Some (\<lambda>arguments metadata. echo_deps \<lparr>request_context = \<lparr>meta = metadata\<rparr>\<rparr>)
   \<and> process_tool_call \<lparr>deps = PInt 42\<rparr> (call_registered_tool mcp_with_deps_tools)
        ''echo_deps'' Map.empty \<lparr>notifications = []\<rparr>
      = echo_deps \<lparr>request_context = \<lparr>meta = Some [''deps'' \<mapsto> PInt 42]\<rparr>\<rparr>
          \<lparr>notifications = []\<rparr>"
proof -
  have reg: "mcp_with_deps_tools ''echo_deps''
     = Some (\<lambda>arguments metadata. echo_deps \<lparr>request_context = \<lparr>meta = metadata\<rparr>\<rparr>)"
    by (simp add: mcp_with_deps_tools_def)
  note direct = process_tool_call_refines_dispatch_spec
         [of "\<lparr>deps = PInt 42\<rparr>" "call_registered_tool mcp_with_deps_tools" "''echo_deps''"
             Map.empty "\<lparr>notifications = []\<rparr>" "[]" mcp_with_deps_tools
             "\<lambda>arguments metadata. echo_deps \<lparr>request_context = \<lparr>meta = metadata\<rparr>\<rparr>"
             "\<lparr>notifications = []\<rparr>",
          THEN conjunct2, THEN conjunct2, THEN mp, OF reg]
  from reg direct show ?thesis
    by (intro conjI) simp_all
qed

text \<open>
  C2: for every context value, \<open>None\<close> and object references included, the metadata the
  dispatcher hands to the mechanism is an envelope whose only key is \<open>deps\<close> and whose
  value under \<open>deps\<close> is the caller's value itself; the mechanism starts from the caller's
  state, so the dispatcher has changed nothing on the way.
\<close>

theorem envelope_carries_deps:
  "\<exists>env. map inv_meta (fst (snd (process_tool_call ctx (traced call_tool) name tool_args ([], s))))
           = [Some env]
        \<and> env ''deps'' = Some (deps ctx)
        \<and> dom env = {''deps''}
        \<and> process_tool_call ctx call_tool name tool_args s
            = call_tool name tool_args (Some env) s"
proof (intro exI conjI)
  show "map inv_meta (fst (snd (process_tool_call ctx (traced call_tool) name tool_args ([], s))))
          = [Some [''deps'' \<mapsto> deps ctx]]"
    by (simp add: traced_process_tool_call invocation_of_def)
  show "[''deps'' \<mapsto> deps ctx] ''deps'' = Some (deps ctx)"
    by simp
  show "dom [''deps'' \<mapsto> deps ctx] = {''deps''}"
    by simp
  show "process_tool_call ctx call_tool name tool_args s
          = call_tool name tool_args (Some [''deps'' \<mapsto> deps ctx]) s"
    by (simp add: process_tool_call_def)
qed

text \<open>
  C3: dispatching \<open>echo_deps\<close> with empty arguments and context 42 returns exactly the
  dictionary \<open>{"echo": "This is an echo message", "deps": 42}\<close>, whatever the session's
  log held before; the tool's info message is appended to that log and changes nothing
  in the result.
\<close>

theorem dispatch_echo_deps_42:
  "process_tool_call \<lparr>deps = PInt 42\<rparr> (call_registered_tool mcp_with_deps_tools)
     ''echo_deps'' Map.empty s =
     (Inr (PDict [(''echo'', PStr ''This is an echo message''), (''deps'', PInt 42)]),
      s\<lparr>notifications := notifications s @ [(''info'', ''This is an info message'')]\<rparr>)"
  using dispatch_echo_deps [of "\<lparr>deps = PInt 42\<rparr>" Map.empty s] by simp

text \<open>
  C4: when the tool name is not registered, the dispatch fails with \<open>ToolNotFound\<close>, for
  every context and arguments; the caller receives that failure, the lookup was attempted
  once and nothing else happened.
\<close>

theorem dispatch_unregistered_tool:
  "registry tool_name = None \<Longrightarrow>
   process_tool_call ctx (call_registered_tool registry) tool_name tool_args s =
     (Inl (PyExc ''ToolNotFound'' tool_name), s)
   \<and> process_tool_call ctx (traced (call_registered_tool registry)) tool_name tool_args (log, s) =
       (Inl (PyExc ''ToolNotFound'' tool_name),
        log @ [invocation_of (ctx, tool_name, tool_args)], s)"
  by (simp add: traced_process_tool_call)
     (simp add: process_tool_call_def call_registered_tool_def)

theorem dispatch_unregistered_tool_witness:
  "mcp_with_deps_tools ''unknown_tool'' = None
   \<and> process_tool_call \<lparr>deps = PNone\<rparr> (call_registered_tool mcp_with_deps_tools)
        ''unknown_tool'' Map.empty \<lparr>notifications = []\<rparr> =
       (Inl (PyExc ''ToolNotFound'' ''unknown_tool''), \<lparr>notifications = []\<rparr>)"
proof -
  have unreg: "mcp_with_deps_tools ''unknown_tool'' = None"
    by (simp add: mcp_with_deps_tools_def)
  from dispatch_unregistered_tool
         [of mcp_with_deps_tools "''unknown_tool''" "\<lparr>deps = PNone\<rparr>" Map.empty
             "\<lparr>notifications = []\<rparr>" "[]"]
    unreg
  show ?thesis by simp
qed

text \<open>
  C5: when the tool mechanism, or the tool under it, raises, the dispatch raises that
  same exception: it is not replaced by another, and the mechanism was invoked once, so
  nothing was retried or recovered.
\<close>

theorem dispatch_propagates_failure:
  "call_tool name tool_args (Some [''deps'' \<mapsto> deps ctx]) s = (Inl e, s') \<Longrightarrow>
   process_tool_call ctx call_tool name tool_args s = (Inl e, s')
   \<and> process_tool_call ctx (traced call_tool) name tool_args (log, s) =
       (Inl e, log @ [invocation_of (ctx, name, tool_args)], s')"
  by (simp add: traced_process_tool_call) (simp add: process_tool_call_def)

theorem dispatch_propagates_failure_witness:
  "failing_mechanism (PyExc ''TimeoutError'' ''timed out'') ''echo_deps'' Map.empty
       (Some [''deps'' \<mapsto> PInt 42]) () = (Inl (PyExc ''TimeoutError'' ''timed out''), ())
   \<and> process_tool_call \<lparr>deps = PInt 42\<rparr> (failing_mechanism (PyExc ''TimeoutError'' ''timed out''))
        ''echo_deps'' Map.empty () = (Inl (PyExc ''TimeoutError'' ''timed out''), ())"
proof -
  have fails: "failing_mechanism (PyExc ''TimeoutError'' ''timed out'') ''echo_deps'' Map.empty
       (Some [''deps'' \<mapsto> deps \<lparr>deps = PInt 42\<rparr>]) ()
         = (Inl (PyExc ''TimeoutError'' ''timed out''), ())"
    by (simp add: failing_mechanism_def)
  from dispatch_propagates_failure
         [of "failing_mechanism (PyExc ''TimeoutError'' ''timed out'')" "''echo_deps''"
             Map.empty "\<lparr>deps = PInt 42\<rparr>" "()" "PyExc ''TimeoutError'' ''timed out''" "()" "[]"]
    fails
  show ?thesis by simp
qed

lemma resume_echo_task:
  "resume (echo_task ctx k) s =
     (echo_task ctx (Suc k), if k = 0 then ctx_info ''This is an info message'' s else s)"
proof (cases k)
  case 0
  then show ?thesis
    by (simp add: echo_dispatch_def process_tool_call_coro_def call_registered_tool_async_def
        mcp_with_deps_tools_async_def echo_deps_coro_def getattr_meta_def echo_result_def)
next
  case (Suc m)
  then show ?thesis by (cases m) simp_all
qed

lemma process_tool_call_coro_atomic:
  "run_schedule [0] [process_tool_call_coro ctx (atomic_call_tool call_tool) name tool_args] s =
     ([Finished (fst (process_tool_call ctx call_tool name tool_args s))],
      snd (process_tool_call ctx call_tool name tool_args s))"
  by (simp add: process_tool_call_coro_def atomic_call_tool_def process_tool_call_def
        split: prod.split)

lemma echo_dispatch_runs_as_process_tool_call:
  "run_schedule [0, 0] [echo_dispatch ctx] s =
     ([Finished (fst (process_tool_call ctx (call_registered_tool mcp_with_deps_tools)
                        ''echo_deps'' Map.empty s))],
      snd (process_tool_call ctx (call_registered_tool mcp_with_deps_tools)
             ''echo_deps'' Map.empty s))"
  using resume_echo_task [of ctx 0 s] resume_echo_task [of ctx "Suc 0"]
  by (simp add: dispatch_echo_deps echo_result_def ctx_info_def)

lemma dispatch_tasks_echo_requests:
  "dispatch_tasks (call_registered_tool_async mcp_with_deps_tools_async) (echo_requests ctxs)
     = map echo_dispatch ctxs"
  by (simp add: dispatch_tasks_def echo_requests_def echo_dispatch_def)

lemma run_schedule_echo:
  assumes "length tasks = length ctxs"
    and "\<forall>i < length ctxs. tasks ! i = echo_task (ctxs ! i) (k i)"
  shows "length (fst (run_schedule sched tasks s)) = length ctxs
       \<and> (\<forall>i < length ctxs.
            fst (run_schedule sched tasks s) ! i
              = echo_task (ctxs ! i) (k i + count_list sched i))"
  using assms
proof (induction sched arbitrary: tasks k s)
  case Nil
  then show ?case by simp
next
  case (Cons j sched)
  show ?case
  proof (cases "j < length tasks")
    case False
    with Cons.prems have "\<forall>i < length ctxs. i \<noteq> j" by auto
    with False Cons.IH [OF Cons.prems] show ?thesis by auto
  next
    case True
    obtain c s' where r: "resume (tasks ! j) s = (c, s')"
      by (cases "resume (tasks ! j) s")
    have c: "c = echo_task (ctxs ! j) (Suc (k j))"
      using r True Cons.prems resume_echo_task [of "ctxs ! j" "k j" s] by simp
    have len: "length (tasks[j := c]) = length ctxs"
      using Cons.prems by simp
    have inv: "\<forall>i < length ctxs.
                 (tasks[j := c]) ! i = echo_task (ctxs ! i) ((k(j := Suc (k j))) i)"
      using Cons.prems c by (auto simp: nth_list_update)
    from Cons.IH [OF len inv, of s'] True r show ?thesis
      by auto
  qed
qed

lemma resume_lift_coro:
  "resume (lift_coro c) (l, s) = (lift_coro (fst (resume c s)), (l, snd (resume c s)))"
  by (cases c) (simp_all add: map_prod_def split_beta)

lemma run_schedule_traced:
  assumes "length tasks = length reqs"
    and "\<forall>i < length reqs.
           (i \<notin> seen \<longrightarrow> tasks ! i = dispatch_tasks (traced_async call_tool) reqs ! i)
         \<and> (i \<in> seen \<longrightarrow> (\<exists>c. tasks ! i = lift_coro c))"
  shows "fst (snd (run_schedule sched tasks (log, s)))
       = log @ map (\<lambda>i. invocation_of (reqs ! i))
                   (starts seen (filter (\<lambda>i. i < length reqs) sched))"
  using assms
proof (induction sched arbitrary: tasks seen log s)
  case Nil
  then show ?case by simp
next
  case (Cons j sched)
  show ?case
  proof (cases "j < length reqs")
    case False
    with Cons.prems Cons.IH [OF Cons.prems] show ?thesis by simp
  next
    case True
    show ?thesis
    proof (cases "j \<in> seen")
      case seen: True
      with True Cons.prems obtain c where tj: "tasks ! j = lift_coro c" by blast
      let ?c' = "lift_coro (fst (resume c s))"
      let ?s' = "snd (resume c s)"
      have len: "length (tasks[j := ?c']) = length reqs"
        using Cons.prems by simp
      have inv: "\<forall>i < length reqs.
           (i \<notin> seen \<longrightarrow>
              (tasks[j := ?c']) ! i = dispatch_tasks (traced_async call_tool) reqs ! i)
         \<and> (i \<in> seen \<longrightarrow> (\<exists>c. (tasks[j := ?c']) ! i = lift_coro c))"
      proof (intro allI impI)
        fix i assume i: "i < length reqs"
        show "(i \<notin> seen \<longrightarrow>
                 (tasks[j := ?c']) ! i = dispatch_tasks (traced_async call_tool) reqs ! i)
            \<and> (i \<in> seen \<longrightarrow> (\<exists>c. (tasks[j := ?c']) ! i = lift_coro c))"
        proof (cases "i = j")
          case True
          with seen i Cons.prems(1) show ?thesis by auto
        next
          case False
          with i Cons.prems(2) show ?thesis by auto
        qed
      qed
      from Cons.IH [OF len inv, of log ?s'] True seen tj Cons.prems(1)
      show ?thesis by (simp add: resume_lift_coro)
    next
      case fresh: False
      obtain ctx name tool_args where req: "reqs ! j = (ctx, name, tool_args)"
        by (cases "reqs ! j")
      let ?inner = "resume (call_tool name tool_args (Some [''deps'' \<mapsto> deps ctx])) s"
      let ?c' = "lift_coro (fst ?inner)"
      have tj: "tasks ! j = process_tool_call_coro ctx (traced_async call_tool) name tool_args"
        using True fresh Cons.prems req by (simp add: dispatch_tasks_def)
      have step: "resume (tasks ! j) (log, s)
                = (?c', (log @ [invocation_of (reqs ! j)], snd ?inner))"
        by (simp add: tj process_tool_call_coro_def traced_async_def invocation_of_def req
              map_prod_def split_beta)
      have len: "length (tasks[j := ?c']) = length reqs"
        using Cons.prems by simp
      have inv: "\<forall>i < length reqs.
           (i \<notin> insert j seen \<longrightarrow>
              (tasks[j := ?c']) ! i = dispatch_tasks (traced_async call_tool) reqs ! i)
         \<and> (i \<in> insert j seen \<longrightarrow> (\<exists>c. (tasks[j := ?c']) ! i = lift_coro c))"
      proof (intro allI impI)
        fix i assume i: "i < length reqs"
        show "(i \<notin> insert j seen \<longrightarrow>
                 (tasks[j := ?c']) ! i = dispatch_tasks (traced_async call_tool) reqs ! i)
            \<and> (i \<in> insert j seen \<longrightarrow> (\<exists>c. (tasks[j := ?c']) ! i = lift_coro c))"
        proof (cases "i = j")
          case True
          with i Cons.prems(1) show ?thesis by auto
        next
          case False
          with i Cons.prems(2) show ?thesis by auto
        qed
      qed
      from Cons.IH [OF len inv, of "log @ [invocation_of (reqs ! j)]" "snd ?inner"]
        True fresh step Cons.prems(1)
      show ?thesis by simp
    qed
  qed
qed

lemma starts_once:
  "distinct (starts seen xs) \<and> set (starts seen xs) = set xs - seen"
  by (induction xs arbitrary: seen) auto

text \<open>
  C6: dispatches in flight together are independent, however the event loop interleaves
  them. For every mechanism, every list of requests and every order of resumptions, the
  mechanism is handed one invocation for each dispatch that starts, when it starts, and
  that invocation carries the name, the arguments and, under \<open>deps\<close>, the context of that
  dispatch's own request: no context is forwarded twice, none for another dispatch, and
  the dispatcher keeps nothing between them. With \<open>echo_deps\<close> as the tool, a dispatch
  that has been resumed \<open>n\<close> times is in a state fixed by its own context and \<open>n\<close> alone,
  whatever the contexts of the others and wherever they were resumed in between; once it
  has finished, its result shows its own context (1 and 42 never cross).
\<close>

theorem dispatches_in_flight_are_independent:
  "fst (snd (run_schedule sched (dispatch_tasks (traced_async call_tool) reqs) (log, s)))
     = log @ map (\<lambda>i. invocation_of (reqs ! i))
                 (starts {} (filter (\<lambda>i. i < length reqs) sched))
   \<and> distinct (starts {} (filter (\<lambda>i. i < length reqs) sched))
   \<and> set (starts {} (filter (\<lambda>i. i < length reqs) sched))
       = {i \<in> set sched. i < length reqs}
   \<and> (i < length ctxs \<longrightarrow>
        fst (run_schedule sched'
               (dispatch_tasks (call_registered_tool_async mcp_with_deps_tools_async)
                  (echo_requests ctxs)) s0) ! i
          = echo_task (ctxs ! i) (count_list sched' i))
   \<and> (i < length ctxs \<longrightarrow> 2 \<le> count_list sched' i \<longrightarrow>
        fst (run_schedule sched'
               (dispatch_tasks (call_registered_tool_async mcp_with_deps_tools_async)
                  (echo_requests ctxs)) s0) ! i
          = Finished (Inr (PDict [(''echo'', PStr ''This is an echo message''),
                                  (''deps'', deps (ctxs ! i))])))"
proof -
  have traced: "fst (snd (run_schedule sched (dispatch_tasks (traced_async call_tool) reqs) (log, s)))
     = log @ map (\<lambda>i. invocation_of (reqs ! i))
                 (starts {} (filter (\<lambda>i. i < length reqs) sched))"
    by (rule run_schedule_traced [where call_tool = call_tool])
       (simp_all add: dispatch_tasks_def)
  have once: "distinct (starts {} (filter (\<lambda>i. i < length reqs) sched))"
    and which: "set (starts {} (filter (\<lambda>i. i < length reqs) sched))
                  = {i \<in> set sched. i < length reqs}"
    using starts_once [of "{}" "filter (\<lambda>i. i < length reqs) sched"] by auto
  have echo: "fst (run_schedule sched'
               (dispatch_tasks (call_registered_tool_async mcp_with_deps_tools_async)
                  (echo_requests ctxs)) s0) ! i
          = echo_task (ctxs ! i) (count_list sched' i)" if "i < length ctxs"
    using run_schedule_echo [of "map echo_dispatch ctxs" ctxs "\<lambda>i. 0" sched' s0] that
    by (simp add: dispatch_tasks_echo_requests)
  have finished: "echo_task (ctxs ! i) (count_list sched' i)
          = Finished (Inr (PDict [(''echo'', PStr ''This is an echo message''),
                                  (''deps'', deps (ctxs ! i))]))"
    if "2 \<le> count_list sched' i"
  proof -
    from that obtain m where "count_list sched' i = Suc (Suc m)"
      by (metis add_2_eq_Suc le_Suc_ex)
    then show ?thesis by (simp add: echo_result_def)
  qed
  from traced once which echo finished show ?thesis by simp
qed

theorem dispatches_in_flight_are_independent_witness:
  "(0::nat) < length [\<lparr>deps = PInt 1\<rparr>, \<lparr>deps = PInt 42\<rparr>]
   \<and> (2::nat) \<le> count_list [0, 1, 0, 1] (0::nat)
   \<and> fst (run_schedule [0, 1, 0, 1]
            (dispatch_tasks (call_registered_tool_async mcp_with_deps_tools_async)
               (echo_requests [\<lparr>deps = PInt 1\<rparr>, \<lparr>deps = PInt 42\<rparr>]))
            \<lparr>notifications = []\<rparr>) ! 0
       = Finished (Inr (PDict [(''echo'', PStr ''This is an echo message''), (''deps'', PInt 1)]))
   \<and> fst (run_schedule [0, 1, 0, 1]
            (dispatch_tasks (call_registered_tool_async mcp_with_deps_tools_async)
               (echo_requests [\<lparr>deps = PInt 1\<rparr>, \<lparr>deps = PInt 42\<rparr>]))
            \<lparr>notifications = []\<rparr>) ! 1
       = Finished (Inr (PDict [(''echo'', PStr ''This is an echo message''), (''deps'', PInt 42)]))"
proof -
  let ?ctxs = "[\<lparr>deps = PInt 1\<rparr>, \<lparr>deps = PInt 42\<rparr>]"
  have in0: "(0::nat) < length ?ctxs" and in1: "(1::nat) < length ?ctxs"
    by simp_all
  have twice0: "(2::nat) \<le> count_list [0, 1, 0, 1] (0::nat)"
    and twice1: "(2::nat) \<le> count_list [0, 1, 0, 1] (1::nat)"
    by simp_all
  note first = dispatches_in_flight_are_independent
      [where i = 0 and ctxs = ?ctxs and sched' = "[0, 1, 0, 1]"
         and ?s0.0 = "\<lparr>notifications = []\<rparr>",
       THEN conjunct2, THEN conjunct2, THEN conjunct2, THEN conjunct2, THEN mp, THEN mp,
       OF in0 twice0]
  note second = dispatches_in_flight_are_independent
      [where i = 1 and ctxs = ?ctxs and sched' = "[0, 1, 0, 1]"
         and ?s0.0 = "\<lparr>notifications = []\<rparr>",
       THEN conjunct2, THEN conjunct2, THEN conjunct2, THEN conjunct2, THEN mp, THEN mp,
       OF in1 twice1]
  from in0 twice0 first second show ?thesis by simp
qed

section \<open>Properties of the tool, the chat endpoint and the Sleeper tools\<close>



text \<open>
  C7, as the claim states it, fails: when the agent run is cancelled, what it raises is
  not an \<open>Exception\<close>, the handler does not catch it, and the endpoint neither returns a
  response nor fails with an \<open>HTTPException\<close>: the cancellation itself reaches the caller.
\<close>

theorem chat_cancelled_propagates:
  "agent_raising (PyBaseExc ''CancelledError'' []) ''hello'' ()
     = (Inl (PyBaseExc ''CancelledError'' []), ())
   \<and> chat (agent_raising (PyBaseExc ''CancelledError'' [])) \<lparr>query = ''hello''\<rparr> ()
     = (Inl (Propagated (PyBaseExc ''CancelledError'' [])), ())
   \<and> Propagated (PyBaseExc ''CancelledError'' [])
     \<noteq> HTTPException 500 (exc_str (PyBaseExc ''CancelledError'' []))"
  by (simp add: chat_def agent_raising_def)

text \<open>
  C7, amended: for every query, the chat endpoint has three outcomes and no other. When
  the agent run returns, the endpoint returns the body \<open>{"response": output}\<close> holding
  the agent's response string; when the agent run raises an \<open>Exception\<close> \<open>e\<close>, the endpoint
  fails with an \<open>HTTPException\<close> of status 500 whose detail is \<open>str(e)\<close>; when the agent
  run raises anything that is not an \<open>Exception\<close>, that is raised to the caller unchanged.
\<close>

theorem chat_three_outcomes:
  "(\<exists>response w'.
       run_sync (query request) w = (Inr response, w')
     \<and> chat run_sync request w = (Inr (PDict [(''response'', PStr (run_output response))]), w'))
   \<or> (\<exists>e w'.
       run_sync (query request) w = (Inl e, w') \<and> is_Exception e
     \<and> chat run_sync request w = (Inl (HTTPException 500 (exc_str e)), w'))
   \<or> (\<exists>e w'.
       run_sync (query request) w = (Inl e, w') \<and> \<not> is_Exception e
     \<and> chat run_sync request w = (Inl (Propagated e), w'))"
proof (cases "run_sync (query request) w")
  case (Pair r w')
  show ?thesis
  proof (cases r)
    case (Inl e)
    with Pair show ?thesis by (cases "is_Exception e") (simp_all add: chat_def)
  next
    case (Inr response)
    with Pair show ?thesis by (simp add: chat_def)
  qed
qed

lemma make_sleeper_request_upstream_returning:
  "make_sleeper_request (upstream_returning v) url w = (Inr v, w)"
  by (simp add: make_sleeper_request_def try_request_def upstream_returning_def)

lemma make_sleeper_request_upstream_failing:
  "make_sleeper_request (upstream_failing e) url w = (except_Exception e, w)"
  by (simp add: make_sleeper_request_def try_request_def upstream_failing_def)

lemma get_user_error_branch:
  "make_sleeper_request hx (SLEEPER_API_BASE @ ''/user/'' @ username) w = (Inr data, w') \<Longrightarrow>
   error_branch Get_user data \<Longrightarrow>
   get_user fmt hx username w =
     (Inr (''Unable to fetch user information for username: '' @ username), w')"
  by (simp add: get_user_def)

lemma get_user_leagues_error_branch:
  "make_sleeper_request hx
     (SLEEPER_API_BASE @ ''/user/'' @ user_id @ ''/leagues/'' @ sport @ ''/'' @ season) w
     = (Inr data, w') \<Longrightarrow>
   error_branch Get_user_leagues data \<Longrightarrow>
   get_user_leagues fmt hx user_id sport season w =
     (Inr (''Unable to fetch leagues for user_id: '' @ user_id), w')"
  by (cases data) (auto simp: get_user_leagues_def)

lemma get_user_on_object:
  "make_sleeper_request hx (SLEEPER_API_BASE @ ''/user/'' @ username) w
     = (Inr (JObject kvs), w') \<Longrightarrow>
   \<exists>text. get_user fmt hx username w = (Inr text, w')"
  by (simp add: get_user_def user_info_def)

text \<open>
  C8: \<open>get_user\<close> is to return a string in every case and never raise. It does so when
  the request fails and when the body is a JSON object. When the upstream answers with a
  JSON list, \<open>data\<close> is not \<open>None\<close>, the first \<open>data.get\<close> is evaluated on the list and
  \<open>AttributeError\<close> is raised to the caller: the evaluation below.
\<close>

theorem get_user_raises_on_list_body:
  "get_user fmt (upstream_returning (JArray [])) username w =
     (Inl (PyExc ''AttributeError'' (no_attribute ''list'' ''get'')), w)"
  by (simp add: get_user_def make_sleeper_request_upstream_returning user_info_def)

text \<open>
  C9, as the claim states it, fails: with a JSON object as the upstream's answer,
  \<open>make_sleeper_request\<close> returns that object, which is not \<open>None\<close>, and
  \<open>get_user_leagues\<close> still takes its error branch.
\<close>

theorem error_branch_not_only_on_none:
  "fst (make_sleeper_request (upstream_returning (JObject []))
          (SLEEPER_API_BASE @ ''/user/42/leagues/nfl/2024'') ()) = Inr (JObject [])
   \<and> JObject [] \<noteq> JNull
   \<and> error_branch Get_user_leagues (JObject [])
   \<and> fst (get_user_leagues example_fmt (upstream_returning (JObject [])) ''42'' ''nfl'' ''2024'' ())
       = Inr ''Unable to fetch leagues for user_id: 42''"
  by (simp add: make_sleeper_request_upstream_returning get_user_leagues_def)

lemma make_sleeper_request_success:
  assumes "hx_open hx w = (Inr client, w1)"
    and "hx_get hx client url w1 = (Inr response, w2)"
    and "hx_raise_for_status hx response = Inr ()"
    and "hx_json hx response = Inr v"
    and "hx_close hx client w2 = (Inr (), w3)"
  shows "make_sleeper_request hx url w = (Inr v, w3)"
  using assms by (simp add: make_sleeper_request_def try_request_def)

lemma try_request_raises:
  "try_raises hx client url w e w' \<Longrightarrow> try_request hx client url w = (except_Exception e, w')"
  by (auto simp: try_raises_def try_request_def)

lemma make_sleeper_request_caught:
  assumes "hx_open hx w = (Inr client, w1)"
    and "try_raises hx client url w1 e w2"
    and "is_Exception e"
    and "hx_close hx client w2 = (Inr (), w3)"
  shows "make_sleeper_request hx url w = (Inr JNull, w3)"
  using assms
  by (simp add: make_sleeper_request_def try_request_raises except_Exception_def)

lemma try_request_Inl:
  "try_request hx client url w = (Inl e, w') \<Longrightarrow>
   try_raises hx client url w e w' \<and> \<not> is_Exception e"
  by (auto simp: try_raises_def try_request_def except_Exception_def
           split: prod.splits sum.splits if_splits)

lemma make_sleeper_request_raises:
  assumes "make_sleeper_request hx url w = (Inl e, w')"
  shows "hx_open hx w = (Inl e, w')
    \<or> (\<exists>client w1 w2. hx_open hx w = (Inr client, w1)
          \<and> hx_close hx client w2 = (Inl e, w'))
    \<or> (\<exists>client w1 w2. hx_open hx w = (Inr client, w1)
          \<and> try_raises hx client url w1 e w2 \<and> \<not> is_Exception e
          \<and> hx_close hx client w2 = (Inr (), w'))"
proof (cases "hx_open hx w")
  case (Pair opened w1)
  show ?thesis
  proof (cases opened)
    case (Inl e1)
    with Pair assms show ?thesis by (simp add: make_sleeper_request_def)
  next
    case (Inr client)
    obtain outcome w2 where body: "try_request hx client url w1 = (outcome, w2)"
      by (cases "try_request hx client url w1")
    obtain closed w3 where close: "hx_close hx client w2 = (closed, w3)"
      by (cases "hx_close hx client w2")
    show ?thesis
    proof (cases closed)
      case (Inl e2)
      with Pair Inr body close assms have "e2 = e" "w3 = w'"
        by (simp_all add: make_sleeper_request_def)
      with Pair Inr close Inl show ?thesis by blast
    next
      case (Inr u)
      with Pair \<open>opened = Inr client\<close> body close assms
      have out: "outcome = Inl e" "w3 = w'"
        by (simp_all add: make_sleeper_request_def)
      with body have "try_raises hx client url w1 e w2 \<and> \<not> is_Exception e"
        by (simp add: try_request_Inl)
      with Pair \<open>opened = Inr client\<close> close Inr out show ?thesis by auto
    qed
  qed
qed

lemma run_tool_error_branch:
  assumes "make_sleeper_request hx (request_url py call) w = (Inr data, w')"
    and "error_branch (tool_of call) data"
  shows "run_tool py hx call w = (Inr (unable_message py call), w')"
  using assms
  by (cases call; cases data)
     (simp_all add: get_user_def get_user_leagues_def get_league_def get_league_rosters_def
        get_league_users_def get_matchups_def get_user_drafts_def get_draft_def
        get_draft_picks_def get_trending_players_def get_all_players_def get_nfl_state_def)

lemma fstring_starts_with_newline:
  "fstring fmt (Lit (NL @ text) # rest) \<noteq> Inr (CHR ''U'' # t)"
  by (simp add: NL_def split: sum.splits)

lemma user_info_starts_with_newline:
  "user_info fmt data \<noteq> Inr (CHR ''U'' # t)"
  by (simp add: user_info_def NL_def split: sum.splits)

lemma league_details_starts_with_newline:
  "league_details fmt data \<noteq> Inr (CHR ''U'' # t)"
  unfolding league_details_def by (rule fstring_starts_with_newline)

lemma draft_details_starts_with_newline:
  "draft_details fmt data \<noteq> Inr (CHR ''U'' # t)"
  unfolding draft_details_def by (rule fstring_starts_with_newline)

lemma nfl_state_details_starts_with_newline:
  "nfl_state_details fmt data \<noteq> Inr (CHR ''U'' # t)"
  unfolding nfl_state_details_def by (rule fstring_starts_with_newline)

lemma run_tool_none_tools:
  assumes "tool_of call \<in> none_tools"
    and "make_sleeper_request hx (request_url py call) w = (Inr data, w')"
  shows "(run_tool py hx call w = (Inr (unable_message py call), w')) = (data = JNull)"
proof (cases "data = JNull")
  case True
  with assms(2) show ?thesis
    by (simp add: run_tool_error_branch [OF assms(2)] none_tools_def)
       (cases call; simp add: get_user_def get_league_def get_draft_def get_nfl_state_def
          get_user_leagues_def get_league_rosters_def get_league_users_def get_matchups_def
          get_user_drafts_def get_draft_picks_def get_trending_players_def get_all_players_def)
next
  case False
  with assms show ?thesis
    by (cases call)
       (simp_all add: none_tools_def get_user_def get_league_def get_draft_def get_nfl_state_def
          league_details_starts_with_newline draft_details_starts_with_newline
          nfl_state_details_starts_with_newline user_info_starts_with_newline)
qed

text \<open>
  C9, amended: \<open>make_sleeper_request\<close> returns the decoded JSON value when the request,
  the status check and the decoding succeed, and \<open>None\<close> when one of them raises an
  \<open>Exception\<close> (HTTP error, timeout, JSON decode failure): it propagates none of these.
  What it does raise is only a failure to open or to close the client, or a raise of the
  three that is not an \<open>Exception\<close> (a cancellation). Every Sleeper tool takes its error
  branch when the result is \<open>None\<close>; the tools that expect a list take it also when the
  result is not a list, \<open>get_all_players\<close> also when it is not a dict; \<open>get_user\<close>,
  \<open>get_league\<close>, \<open>get_draft\<close> and \<open>get_nfl_state\<close> take it exactly when the result is
  \<open>None\<close>.
\<close>

theorem sleeper_request_total_and_error_branches:
  "(hx_open hx w = (Inr client, w1) \<longrightarrow>
    hx_get hx client url w1 = (Inr response, w2) \<longrightarrow>
    hx_raise_for_status hx response = Inr () \<longrightarrow>
    hx_json hx response = Inr v \<longrightarrow>
    hx_close hx client w2 = (Inr (), w3) \<longrightarrow>
      make_sleeper_request hx url w = (Inr v, w3))
   \<and> (hx_open hx w = (Inr client, w1) \<longrightarrow>
       try_raises hx client url w1 e w2 \<longrightarrow>
       is_Exception e \<longrightarrow>
       hx_close hx client w2 = (Inr (), w3) \<longrightarrow>
         make_sleeper_request hx url w = (Inr JNull, w3))
   \<and> (make_sleeper_request hx url w = (Inl e', w') \<longrightarrow>
         hx_open hx w = (Inl e', w')
         \<or> (\<exists>c x y. hx_open hx w = (Inr c, x) \<and> hx_close hx c y = (Inl e', w'))
         \<or> (\<exists>c x y. hx_open hx w = (Inr c, x)
               \<and> try_raises hx c url x e' y \<and> \<not> is_Exception e'
               \<and> hx_close hx c y = (Inr (), w')))
   \<and> (make_sleeper_request hx (request_url py call) w = (Inr data, w') \<longrightarrow>
       error_branch (tool_of call) data \<longrightarrow>
         run_tool py hx call w = (Inr (unable_message py call), w'))
   \<and> error_branch tool data =
       (data = JNull
        \<or> (tool \<in> list_tools \<and> \<not> isinstance_list data)
        \<or> (tool = Get_all_players \<and> \<not> isinstance_dict data))
   \<and> (tool_of call \<in> none_tools \<longrightarrow>
       make_sleeper_request hx (request_url py call) w = (Inr data, w') \<longrightarrow>
         (run_tool py hx call w = (Inr (unable_message py call), w')) = (data = JNull))"
proof (intro conjI impI)
  assume "hx_open hx w = (Inr client, w1)"
    and "hx_get hx client url w1 = (Inr response, w2)"
    and "hx_raise_for_status hx response = Inr ()"
    and "hx_json hx response = Inr v"
    and "hx_close hx client w2 = (Inr (), w3)"
  then show "make_sleeper_request hx url w = (Inr v, w3)"
    by (rule make_sleeper_request_success)
next
  assume "hx_open hx w = (Inr client, w1)"
    and "try_raises hx client url w1 e w2"
    and "is_Exception e"
    and "hx_close hx client w2 = (Inr (), w3)"
  then show "make_sleeper_request hx url w = (Inr JNull, w3)"
    by (rule make_sleeper_request_caught)
next
  assume "make_sleeper_request hx url w = (Inl e', w')"
  then show "hx_open hx w = (Inl e', w')
         \<or> (\<exists>c x y. hx_open hx w = (Inr c, x) \<and> hx_close hx c y = (Inl e', w'))
         \<or> (\<exists>c x y. hx_open hx w = (Inr c, x)
               \<and> try_raises hx c url x e' y \<and> \<not> is_Exception e'
               \<and> hx_close hx c y = (Inr (), w'))"
    by (rule make_sleeper_request_raises)
next
  assume "make_sleeper_request hx (request_url py call) w = (Inr data, w')"
    and "error_branch (tool_of call) data"
  then show "run_tool py hx call w = (Inr (unable_message py call), w')"
    by (rule run_tool_error_branch)
next
  show "error_branch tool data =
       (data = JNull
        \<or> (tool \<in> list_tools \<and> \<not> isinstance_list data)
        \<or> (tool = Get_all_players \<and> \<not> isinstance_dict data))"
    by (cases tool) (simp_all add: list_tools_def)
next
  assume "tool_of call \<in> none_tools"
    and "make_sleeper_request hx (request_url py call) w = (Inr data, w')"
  then show "(run_tool py hx call w = (Inr (unable_message py call), w')) = (data = JNull)"
    by (rule run_tool_none_tools)
qed

theorem sleeper_request_total_and_error_branches_witness:
  "make_sleeper_request (upstream_returning (JObject [(''username'', JStr ''alice'')]))
     (SLEEPER_API_BASE @ ''/user/alice'') ()
     = (Inr (JObject [(''username'', JStr ''alice'')]), ())
   \<and> make_sleeper_request (upstream_failing (PyExc ''ConnectTimeout'' ''timed out''))
       (SLEEPER_API_BASE @ ''/user/alice'') ()
     = (Inr JNull, ())
   \<and> run_tool example_python (upstream_returning (JObject []))
       (Call_get_league_rosters ''77'') ()
     = (Inr ''Unable to fetch rosters for league_id: 77'', ())
   \<and> run_tool example_python (upstream_failing (PyExc ''ConnectTimeout'' ''timed out''))
       (Call_get_user ''alice'') ()
     = (Inr ''Unable to fetch user information for username: alice'', ())
   \<and> make_sleeper_request (upstream_failing (PyBaseExc ''CancelledError'' []))
       (SLEEPER_API_BASE @ ''/user/alice'') ()
     = (Inl (PyBaseExc ''CancelledError'' []), ())
   \<and> try_raises (upstream_failing (PyBaseExc ''CancelledError'' [])) ()
       (SLEEPER_API_BASE @ ''/user/alice'') () (PyBaseExc ''CancelledError'' []) ()"
proof (intro conjI)
  let ?ok = "upstream_returning (JObject [(''username'', JStr ''alice'')])"
  let ?down = "upstream_failing (PyExc ''ConnectTimeout'' ''timed out'')"
  let ?url = "SLEEPER_API_BASE @ ''/user/alice''"
  have "hx_open ?ok () = (Inr (), ())"
    and "hx_get ?ok () ?url () = (Inr (), ())"
    and "hx_raise_for_status ?ok () = Inr ()"
    and "hx_json ?ok () = Inr (JObject [(''username'', JStr ''alice'')])"
    and "hx_close ?ok () () = (Inr (), ())"
    by (simp_all add: upstream_returning_def)
  with sleeper_request_total_and_error_branches
         [of ?ok "()" "()" "()" ?url "()" "()" "JObject [(''username'', JStr ''alice'')]" "()"]
  show "make_sleeper_request ?ok ?url () = (Inr (JObject [(''username'', JStr ''alice'')]), ())"
    by blast
next
  let ?down = "upstream_failing (PyExc ''ConnectTimeout'' ''timed out'')"
  let ?url = "SLEEPER_API_BASE @ ''/user/alice''"
  have "hx_open ?down () = (Inr (), ())"
    and "try_raises ?down () ?url () (PyExc ''ConnectTimeout'' ''timed out'') ()"
    and "is_Exception (PyExc ''ConnectTimeout'' ''timed out'')"
    and "hx_close ?down () () = (Inr (), ())"
    by (simp_all add: upstream_failing_def try_raises_def)
  with sleeper_request_total_and_error_branches
         [of ?down "()" "()" "()" ?url "()" "()" JNull "()"
             "PyExc ''ConnectTimeout'' ''timed out''"]
  show "make_sleeper_request ?down ?url () = (Inr JNull, ())"
    by blast
next
  let ?hx = "upstream_returning (JObject [])"
  let ?call = "Call_get_league_rosters ''77''"
  have "make_sleeper_request ?hx (request_url example_python ?call) () = (Inr (JObject []), ())"
    and "error_branch (tool_of ?call) (JObject [])"
    by (simp_all add: make_sleeper_request_upstream_returning)
  with sleeper_request_total_and_error_branches
         [where hx = ?hx and w = "()" and py = example_python and call = ?call
            and data = "JObject []" and w' = "()"]
  have "run_tool example_python ?hx ?call () = (Inr (unable_message example_python ?call), ())"
    by blast
  then show "run_tool example_python ?hx ?call ()
               = (Inr ''Unable to fetch rosters for league_id: 77'', ())"
    by simp
next
  let ?hx = "upstream_failing (PyExc ''ConnectTimeout'' ''timed out'')"
  let ?call = "Call_get_user ''alice''"
  have "tool_of ?call \<in> none_tools"
    and "make_sleeper_request ?hx (request_url example_python ?call) () = (Inr JNull, ())"
    by (simp_all add: none_tools_def make_sleeper_request_upstream_failing except_Exception_def)
  with sleeper_request_total_and_error_branches
         [where hx = ?hx and w = "()" and py = example_python and call = ?call
            and data = JNull and w' = "()"]
  have "run_tool example_python ?hx ?call () = (Inr (unable_message example_python ?call), ())"
    by blast
  then show "run_tool example_python ?hx ?call ()
               = (Inr ''Unable to fetch user information for username: alice'', ())"
    by simp
next
  let ?hx = "upstream_failing (PyBaseExc ''CancelledError'' [])"
  let ?url = "SLEEPER_API_BASE @ ''/user/alice''"
  show cancelled: "make_sleeper_request ?hx ?url () = (Inl (PyBaseExc ''CancelledError'' []), ())"
    by (simp add: make_sleeper_request_upstream_failing except_Exception_def)
  have opens: "hx_open ?hx () = (Inr (), ())" and closes: "hx_close ?hx () () = (Inr (), ())"
    by (simp_all add: upstream_failing_def)
  from sleeper_request_total_and_error_branches
         [where hx = ?hx and w = "()" and url = ?url
            and e' = "PyBaseExc ''CancelledError'' []" and w' = "()"]
       cancelled
  have "hx_open ?hx () = (Inl (PyBaseExc ''CancelledError'' []), ())
         \<or> (\<exists>c x y. hx_open ?hx () = (Inr c, x)
               \<and> hx_close ?hx c y = (Inl (PyBaseExc ''CancelledError'' []), ()))
         \<or> (\<exists>c x y. hx_open ?hx () = (Inr c, x)
               \<and> try_raises ?hx c ?url x (PyBaseExc ''CancelledError'' []) y
               \<and> \<not> is_Exception (PyBaseExc ''CancelledError'' [])
               \<and> hx_close ?hx c y = (Inr (), ()))"
    by blast
  with opens closes
  show "try_raises ?hx () ?url () (PyBaseExc ''CancelledError'' []) ()"
    by auto
qed

end
